theory Spec2Isabelle
  imports Main
begin

section \<open>Python values used by \<open>pyena/client.py\<close>\<close>

text \<open>
  Python \<open>str\<close> values are modelled as HOL strings; a character stands for one of the
  code points U+0000 .. U+00FF.  \<open>None\<close> is \<open>None\<close> of an option type.  An exception
  that the source can raise is a value of \<open>py_error\<close>.
\<close>

datatype py_error =
    IndexError
  | KeyError
  | TypeError
  | AttributeError
  | UnboundLocalError
  | ExternalError string

subsection \<open>Strings\<close>

text \<open>\<open>str.isspace\<close> on one character (the white space of Unicode below U+0100).\<close>

definition isspace :: "char \<Rightarrow> bool" where
  "isspace c =
     (let n = (of_char c :: nat)
      in (9 \<le> n \<and> n \<le> 13) \<or> (28 \<le> n \<and> n \<le> 32) \<or> n = 133 \<or> n = 160)"

text \<open>
  \<open>str.lower\<close> on one character, and on a string.  The capital letters below U+0100 are
  A to Z and U+00C0 to U+00DE without U+00D7; the small letter is 32 further on, which for
  these code points is the same character with bit 5 set.
\<close>

definition lower_char :: "char \<Rightarrow> char" where
  "lower_char c =
     (let n = (of_char c :: nat)
      in if (65 \<le> n \<and> n \<le> 90) \<or> (192 \<le> n \<and> n \<le> 222 \<and> n \<noteq> 215)
         then Char (digit0 c) (digit1 c) (digit2 c) (digit3 c) (digit4 c) True (digit6 c) (digit7 c)
         else c)"

definition lower :: "string \<Rightarrow> string" where
  "lower s = map lower_char s"

text \<open>\<open>s.replace(old, new)\<close> where \<open>old\<close> is a single character.\<close>

definition replace :: "char \<Rightarrow> string \<Rightarrow> string \<Rightarrow> string" where
  "replace old new s = concat (map (\<lambda>c. if c = old then new else [c]) s)"

text \<open>\<open>sep.join(xs)\<close>.\<close>

fun join :: "string \<Rightarrow> string list \<Rightarrow> string" where
  "join sep [] = []"
| "join sep [x] = x"
| "join sep (x # y # ys) = x @ sep @ join sep (y # ys)"

text \<open>\<open>p in s\<close> for strings: \<open>p\<close> occurs in \<open>s\<close> as a contiguous substring.\<close>

fun startswith :: "string \<Rightarrow> string \<Rightarrow> bool" where
  "startswith s [] = True"
| "startswith [] (p # ps) = False"
| "startswith (c # cs) (p # ps) = (c = p \<and> startswith cs ps)"

fun py_in :: "string \<Rightarrow> string \<Rightarrow> bool" where
  "py_in p [] = (p = [])"
| "py_in p (c # cs) = (startswith (c # cs) p \<or> py_in p cs)"

text \<open>The number of places of \<open>s\<close> at which \<open>p\<close> starts.\<close>

fun occurrences :: "string \<Rightarrow> string \<Rightarrow> nat" where
  "occurrences p [] = 0"
| "occurrences p (c # cs) = (if startswith (c # cs) p then 1 else 0) + occurrences p cs"

text \<open>
  \<open>s.split()\<close>: the maximal runs of characters that are not white space.  \<open>split_from\<close>
  carries the token read so far.
\<close>

fun split_from :: "string \<Rightarrow> string \<Rightarrow> string list" where
  "split_from cur [] = (if cur = [] then [] else [cur])"
| "split_from cur (c # cs) =
     (if isspace c
      then (if cur = [] then split_from [] cs else cur # split_from [] cs)
      else split_from (cur @ [c]) cs)"

definition str_split :: "string \<Rightarrow> string list" where
  "str_split s = split_from [] s"

text \<open>
  The number of tokens that \<open>split_from\<close> returns, counted directly; \<open>b\<close> says whether a
  token is being read.  It is used in the proofs only.
\<close>

fun count_from :: "bool \<Rightarrow> string \<Rightarrow> nat" where
  "count_from b [] = (if b then 1 else 0)"
| "count_from b (c # cs) =
     (if isspace c then (if b then 1 else 0) + count_from False cs else count_from True cs)"

text \<open>\<open>xs[i]\<close>: a negative index counts from the end, an index out of range raises.\<close>

definition py_index :: "'a list \<Rightarrow> int \<Rightarrow> py_error + 'a" where
  "py_index xs i =
     (if 0 \<le> i \<and> i < int (length xs) then Inr (xs ! nat i)
      else if i < 0 \<and> - int (length xs) \<le> i then Inr (xs ! nat (int (length xs) + i))
      else Inl IndexError)"

text \<open>\<open>str(n)\<close> for an integer.\<close>

definition digit_char :: "nat \<Rightarrow> char" where
  "digit_char d = ''0123456789'' ! d"

fun str_nat :: "nat \<Rightarrow> string" where
  "str_nat n = (if n < 10 then [digit_char n] else str_nat (n div 10) @ [digit_char (n mod 10)])"

declare str_nat.simps [simp del]

definition str_int :: "int \<Rightarrow> string" where
  "str_int i = (if i < 0 then CHR ''-'' # str_nat (nat (- i)) else str_nat (nat i))"

text \<open>\<open>str(x)\<close> and truth of a value that is a string or \<open>None\<close>.\<close>

definition str_opt :: "string option \<Rightarrow> string" where
  "str_opt x = (case x of None \<Rightarrow> ''None'' | Some s \<Rightarrow> s)"

definition truthy :: "string option \<Rightarrow> bool" where
  "truthy x = (case x of None \<Rightarrow> False | Some s \<Rightarrow> s \<noteq> [])"

subsection \<open>Parsed documents\<close>

text \<open>
  The document that \<open>BeautifulSoup(content, 'xml')\<close> returns: elements with a name,
  attributes and children, and character data.  The parser itself is a parameter of the
  model (\<open>bs\<close> below); the three queries the client makes on its result are
  \<open>findAll(name)\<close> (all elements of that name, in document order), \<open>find(name)\<close> (the
  first of them, or \<open>None\<close>), \<open>.text\<close> (the character data below an element) and
  \<open>.get(attr)\<close>.
\<close>

datatype xml = Tag string "(string \<times> string) list" "xml list" | CData string

type_synonym soup = "xml list"

fun findAll_in :: "string \<Rightarrow> xml \<Rightarrow> xml list" where
  "findAll_in name (CData s) = []"
| "findAll_in name (Tag n attrs kids) =
     (if n = name then [Tag n attrs kids] else []) @ concat (map (findAll_in name) kids)"

definition findAll :: "soup \<Rightarrow> string \<Rightarrow> xml list" where
  "findAll doc name = concat (map (findAll_in name) doc)"

definition find_first :: "soup \<Rightarrow> string \<Rightarrow> xml option" where
  "find_first doc name = (case findAll doc name of [] \<Rightarrow> None | e # _ \<Rightarrow> Some e)"

fun elem_text :: "xml \<Rightarrow> string" where
  "elem_text (CData s) = s"
| "elem_text (Tag n attrs kids) = concat (map elem_text kids)"

fun get_attr :: "xml \<Rightarrow> string \<Rightarrow> string option" where
  "get_attr (CData s) k = None"
| "get_attr (Tag n attrs kids) k = map_of attrs k"

section \<open>Effects: the trace of a run\<close>

text \<open>
  What a run does to the outside world is recorded in order: text written to the two
  output streams, requests sent, files stored.  A computation takes the trace so far and
  returns a value or the exception raised, with the extended trace.
\<close>

datatype event =
    Stderr string
  | Stdout string
  | Http_get string
  | Http_post string "(string \<times> string) list"
  | Ftp_stor string
  | Called string "(string \<times> string option) list"

type_synonym 'a prog = "event list \<Rightarrow> (py_error + 'a) \<times> event list"

definition ret :: "'a \<Rightarrow> 'a prog" where
  "ret x = (\<lambda>t. (Inr x, t))"

definition raise :: "py_error \<Rightarrow> 'a prog" where
  "raise e = (\<lambda>t. (Inl e, t))"

definition andthen :: "'a prog \<Rightarrow> ('a \<Rightarrow> 'b prog) \<Rightarrow> 'b prog" where
  "andthen m f = (\<lambda>t. case m t of (Inl e, t') \<Rightarrow> (Inl e, t') | (Inr x, t') \<Rightarrow> f x t')"

definition emit :: "event \<Rightarrow> unit prog" where
  "emit e = (\<lambda>t. (Inr (), t @ [e]))"

definition lift :: "py_error + 'a \<Rightarrow> 'a prog" where
  "lift r = (case r of Inl e \<Rightarrow> raise e | Inr x \<Rightarrow> ret x)"

text \<open>
  Two notions for stating what a computation adds to the trace: the events it adds all
  satisfy \<open>P\<close>, whatever the trace before; and the events written to the diagnostic stream.
\<close>

definition emits :: "(event \<Rightarrow> bool) \<Rightarrow> 'a prog \<Rightarrow> bool" where
  "emits P m = (\<forall>t. \<exists>evs. snd (m t) = t @ evs \<and> (\<forall>e \<in> set evs. P e))"

text \<open>The first event that a computation adds is \<open>e\<close>, whatever the trace before.\<close>

definition begins_with :: "event \<Rightarrow> 'a prog \<Rightarrow> bool" where
  "begins_with e m = (\<forall>t. \<exists>evs. snd (m t) = t @ e # evs)"

text \<open>
  An event that fits a run which reuses the sample accession \<open>acc\<close>: it is no entry into
  \<open>register_sample\<close> and no request carrying a SAMPLE document, and an entry into
  \<open>register_experiment\<close> has \<open>acc\<close> as its sample accession.
\<close>

definition keeps_sample :: "string option \<Rightarrow> event \<Rightarrow> bool" where
  "keeps_sample acc e =
     (case e of
        Called name a \<Rightarrow>
          name \<noteq> ''register_sample''
          \<and> (name = ''register_experiment'' \<longrightarrow> map_of a ''sample_accession'' = Some acc)
      | Http_post url files \<Rightarrow> map_of files ''SAMPLE'' = None
      | _ \<Rightarrow> True)"

fun is_stderr :: "event \<Rightarrow> bool" where
  "is_stderr (Stderr s) = True"
| "is_stderr (Stdout s) = False"
| "is_stderr (Http_get url) = False"
| "is_stderr (Http_post url files) = False"
| "is_stderr (Ftp_stor f) = False"
| "is_stderr (Called name a) = False"

section \<open>The response classifier: \<open>handle_response\<close>\<close>

definition stars :: string where
  "stars = replicate 80 (CHR ''*'')"

definition not_200_message :: "int \<Rightarrow> string \<Rightarrow> string" where
  "not_200_message status_code content =
     join [CHR 0x0A]
       [stars,
        ''ENA responded with HTTP '' @ str_int status_code @ ''.'',
        ''I don't know how to handle this. For your information, the response is below:'',
        stars, content, stars]"

definition errors_200_message :: "string \<Rightarrow> string" where
  "errors_200_message content =
     join [CHR 0x0A]
       [stars,
        ''ENA responded with HTTP 200, but there were ERROR messages in the response.'',
        ''I don't know how to handle this. For your information, the response is below:'',
        stars, content, stars]"

definition already_exists :: string where
  "already_exists = ''already exists in the submission account with accession:''"

definition already_submitted :: string where
  "already_submitted = ''has already been submitted and is waiting to be processed''"

definition not_uploaded :: string where
  "not_uploaded = ''does not exist in the upload area''"

text \<open>
  The loop over the ERROR elements (lines 151 to 165), on the texts of the elements.  The
  pair is \<open>(response_code, response_accession)\<close>; a \<open>break\<close> returns it, and an error that
  matches no phrase moves on to the next one.
\<close>

fun scan_errors :: "string list \<Rightarrow> int \<times> string option \<Rightarrow> (int \<times> string option) prog" where
  "scan_errors [] st = ret st"
| "scan_errors (t # ts) st =
     (if py_in already_exists t then
        andthen (lift (py_index (str_split t) (- 1))) (\<lambda>tok.
          let response_accession = replace (CHR ''.'') [] (replace (CHR 0x22) [] tok) in
          andthen (emit (Stderr (''[SKIP] Accession '' @ response_accession
                                  @ '' already exists. Moving on...'' @ [CHR 0x0A])))
            (\<lambda>_. ret (1, Some response_accession)))
      else if py_in already_submitted t then
        andthen (lift (py_index (str_split t) 4)) (\<lambda>response_accession.
          andthen (emit (Stderr (''[SKIP] File '' @ response_accession
                     @ '' already uploaded. Cannot release again. Moving on...'' @ [CHR 0x0A])))
            (\<lambda>_. ret (1, Some response_accession)))
      else if py_in not_uploaded t then ret (- 3, snd st)
      else scan_errors ts st)"

text \<open>
  \<open>handle_response(status_code, content, accession=False)\<close>.  The parser \<open>bs\<close> is the
  call \<open>bs(content, 'xml')\<close>; the argument \<open>accession\<close> is \<open>None\<close> for the default
  \<open>False\<close>.  The \<open>try\<close> around \<open>soup.find(accession).get("accession")\<close> catches the
  AttributeError of \<open>None.get\<close> when no element has that name.
\<close>

definition handle_response ::
  "(string \<Rightarrow> soup) \<Rightarrow> int \<Rightarrow> string \<Rightarrow> string option \<Rightarrow> (int \<times> string option) prog" where
  "handle_response bs status_code content accession =
     (if status_code \<noteq> 200 then
        andthen (emit (Stderr (not_200_message status_code content))) (\<lambda>_. ret (- 1, None))
      else
        let soup = bs content in
        if length (findAll soup ''ERROR'') > 0 then
          andthen (scan_errors (map elem_text (findAll soup ''ERROR'')) (- 1, None))
            (\<lambda>(response_code, response_accession).
               if \<not> truthy response_accession \<and> response_code = - 1 then
                 andthen (emit (Stderr (errors_200_message content)))
                   (\<lambda>_. ret (- 1, response_accession))
               else ret (response_code, response_accession))
        else
          ret (0, if truthy accession
                  then (case find_first soup (the accession) of
                          None \<Rightarrow> None
                        | Some e \<Rightarrow> get_attr e ''accession'')
                  else None))"

section \<open>The vocabulary normalizer\<close>

text \<open>\<open>_convert_library_strategy(s)\<close>; the argument may be \<open>None\<close>, which is no key.\<close>

definition conversions :: "(string \<times> string) list" where
  "conversions = [(''TARGETED_CAPTURE'', ''Targeted-Capture'')]"

definition convert_library_strategy :: "string option \<Rightarrow> string option" where
  "convert_library_strategy s =
     (case s of
        None \<Rightarrow> None
      | Some k \<Rightarrow> (case map_of conversions k of Some v \<Rightarrow> Some v | None \<Rightarrow> Some k))"

text \<open>
  The table \<open>valid_enums\<close> of \<open>_convert_platform\<close>, in the order in which the dictionary
  literals list their entries, which is the order in which the two loops visit them.
\<close>

definition valid_enums :: "(string \<times> (string \<times> string) list) list" where
  "valid_enums =
     [(''ILLUMINA'',
        [(''X Five'', ''HiSeq X Five''),
         (''X Ten'', ''HiSeq X Ten''),
         (''Genome Analyzer'', ''Illumina Genome Analyzer''),
         (''Genome Analyzer II'', ''Illumina Genome Analyzer II''),
         (''Genome Analyzer IIx'', ''Illumina Genome Analyzer IIx''),
         (''HiScanSQ'', ''Illumina HiScanSQ''),
         (''HiSeq 1000'', ''Illumina HiSeq 1000''),
         (''HiSeq 1500'', ''Illumina HiSeq 1500''),
         (''HiSeq 2000'', ''Illumina HiSeq 2000''),
         (''HiSeq 2500'', ''Illumina HiSeq 2500''),
         (''HiSeq 3000'', ''Illumina HiSeq 3000''),
         (''HiSeq 4000'', ''Illumina HiSeq 4000''),
         (''iSeq 100'', ''Illumina iSeq 100''),
         (''MiSeq'', ''Illumina MiSeq''),
         (''MiniSeq'', ''Illumina MiniSeq''),
         (''NovaSeq 6000'', ''Illumina NovaSeq 6000''),
         (''NextSeq 500'', ''NextSeq 500''),
         (''NextSeq 550'', ''NextSeq 550''),
         (''hiseq'', ''unspecified''),
         (''miseq'', ''unspecified''),
         (''iseq'', ''unspecified''),
         (''novaseq'', ''unspecified''),
         (''nextseq'', ''unspecified'')]),
      (''OXFORD_NANOPORE'',
        [(''MinION'', ''MinION''),
         (''GridION'', ''GridION''),
         (''PromethION'', ''PromethION'')]),
      (''ION_TORRENT'',
        [(''Ion Torrent PGM'', ''Ion Torrent PGM''),
         (''Ion Torrent Proton'', ''Ion Torrent Proton''),
         (''Ion Torrent S5'', ''Ion Torrent S5''),
         (''Ion Torrent S5 XL'', ''Ion Torrent S5 XL'')])]"

text \<open>The inner loop: the first model of one make whose lowered key occurs in the name.\<close>

fun scan_models :: "(string \<times> string) list \<Rightarrow> string \<Rightarrow> string option" where
  "scan_models [] instrument_name = None"
| "scan_models ((possible_model_k, possible_model_v) # rest) instrument_name =
     (if py_in (lower possible_model_k) instrument_name then Some possible_model_v
      else scan_models rest instrument_name)"

text \<open>The outer loop over the makes.\<close>

fun scan_makes ::
  "(string \<times> (string \<times> string) list) list \<Rightarrow> string \<Rightarrow> string option \<times> string option" where
  "scan_makes [] instrument_name = (None, None)"
| "scan_makes ((instrument_make, instrument_models) # rest) instrument_name =
     (case scan_models instrument_models instrument_name of
        Some v \<Rightarrow> (Some instrument_make, Some v)
      | None \<Rightarrow> scan_makes rest instrument_name)"

definition convert_platform :: "string \<Rightarrow> string option \<times> string option" where
  "convert_platform instrument_name =
     scan_makes valid_enums (lower (replace (CHR ''_'') '' '' instrument_name))"

section \<open>The metadata encoder\<close>

text \<open>
  \<open>a + b + ...\<close> on strings where an operand may be \<open>None\<close>: Python raises TypeError
  then.
\<close>

definition cat :: "string option list \<Rightarrow> py_error + string" where
  "cat parts = (if None \<in> set parts then Inl TypeError else Inr (concat (map the parts)))"

text \<open>
  \<open>_add_today(center_name, modify)\<close>.  \<open>today\<close> is what
  \<open>datetime.today().strftime('%Y-%m-%d')\<close> returns; \<open>add_today_action\<close> is the local
  variable \<open>action\<close>.
\<close>

definition add_today_action :: "string \<Rightarrow> bool \<Rightarrow> string" where
  \<open>add_today_action today modify =
     (if modify then
        ''\<newline>        <ACTION>\<newline>            <MODIFY/>\<newline>        </ACTION>''
      else
        ''\<newline>        <ACTION>\<newline>            <ADD/>\<newline>        </ACTION>\<newline>        <ACTION>\<newline>            <HOLD HoldUntilDate="''
        @ today @ ''" />\<newline>        </ACTION>\<newline>         '')\<close>

definition add_today :: "string \<Rightarrow> string option \<Rightarrow> bool \<Rightarrow> py_error + string" where
  \<open>add_today today center_name modify =
     cat [Some ''\<newline>    <SUBMISSION center_name="'', center_name,
          Some ''">\<newline>    <ACTIONS>'', Some (add_today_action today modify),
          Some ''\<newline>    </ACTIONS>\<newline>    </SUBMISSION>\<newline>    '']\<close>

text \<open>The document of \<open>_release_target\<close>; \<open>"%s" % target\<close> prints \<open>None\<close> as \<open>None\<close>.\<close>

definition release_xml :: "string option \<Rightarrow> string option \<Rightarrow> py_error + string" where
  \<open>release_xml target center_name =
     cat [Some ''\<newline>    <SUBMISSION center_name="'', center_name,
          Some ''">\<newline>    <ACTIONS>\<newline>        <ACTION>\<newline>            <RELEASE target="'',
          Some (str_opt target),
          Some ''" />\<newline>        </ACTION>\<newline>    </ACTIONS>\<newline>    </SUBMISSION>\<newline>    '']\<close>

text \<open>
  A dictionary built from pairs keeps the place of the first entry of a key and the value
  of the last (\<open>{x[0]: x[1] for x in pairs}\<close>, \<open>files[k] = v\<close>).
\<close>

fun dict_set :: "'k \<Rightarrow> 'v \<Rightarrow> ('k \<times> 'v) list \<Rightarrow> ('k \<times> 'v) list" where
  "dict_set k v [] = [(k, v)]"
| "dict_set k v ((k', v') # rest) =
     (if k' = k then (k, v) # rest else (k', v') # dict_set k v rest)"

definition dict_of :: "('k \<times> 'v) list \<Rightarrow> ('k \<times> 'v) list" where
  "dict_of pairs = foldl (\<lambda>d (k, v). dict_set k v d) [] pairs"

text \<open>\<open>d[k]\<close>.\<close>

definition getitem :: "('k \<times> 'v) list \<Rightarrow> 'k \<Rightarrow> py_error + 'v" where
  "getitem d k = (case map_of d k of None \<Rightarrow> Inl KeyError | Some v \<Rightarrow> Inr v)"

text \<open>The attribute lines of a sample and of an experiment: entries with an empty value are left out.\<close>

definition attribute_lines :: "string \<Rightarrow> (string \<times> string) list \<Rightarrow> string" where
  "attribute_lines kind attributes =
     join [CHR 0x0A]
       (map (\<lambda>(k, v). ''<'' @ kind @ ''_ATTRIBUTE><TAG>'' @ k @ ''</TAG><VALUE>'' @ v
                        @ ''</VALUE></'' @ kind @ ''_ATTRIBUTE>'')
            (filter (\<lambda>(k, v). length v > 0) attributes))"

definition sample_xml :: "string \<Rightarrow> string \<Rightarrow> string \<Rightarrow> (string \<times> string) list \<Rightarrow> string" where
  \<open>sample_xml sample_alias taxon_id center_name attributes =
     ''\<newline>    <SAMPLE_SET>\<newline>    <SAMPLE alias="'' @ sample_alias @ ''" center_name="'' @ center_name
     @ ''">\<newline>    <TITLE>'' @ sample_alias
     @ ''</TITLE>\<newline>    <SAMPLE_NAME>\<newline>      <TAXON_ID>'' @ taxon_id
     @ ''</TAXON_ID>\<newline>    </SAMPLE_NAME>\<newline>    <SAMPLE_ATTRIBUTES>''
     @ attribute_lines ''SAMPLE'' attributes
     @ ''</SAMPLE_ATTRIBUTES>\<newline>    </SAMPLE>\<newline>    </SAMPLE_SET>\<newline>    ''\<close>

record library_d =
  lib_source :: string
  lib_selection :: string
  lib_strategy :: "string option"
  lib_protocol :: string

definition platform_stanza :: "string \<Rightarrow> string" where
  "platform_stanza instrument =
     (case convert_platform instrument of
        (Some platform, model) \<Rightarrow>
          (if platform \<noteq> [] then
             ''<'' @ platform @ ''><INSTRUMENT_MODEL>'' @ str_opt model @ ''</INSTRUMENT_MODEL></''
             @ platform @ ''>''
           else [])
      | (None, model) \<Rightarrow> [])"

definition experiment_xml ::
  "string option \<Rightarrow> string \<Rightarrow> string option \<Rightarrow> string \<Rightarrow> library_d \<Rightarrow> string option
     \<Rightarrow> (string \<times> string) list \<Rightarrow> py_error + string" where
  \<open>experiment_xml exp_alias study_accession sample_accession instrument library_d center_name attributes =
     (let e_protocol =
            (if lib_protocol library_d \<noteq> []
             then ''<LIBRARY_CONSTRUCTION_PROTOCOL>'' @ lib_protocol library_d
                  @ ''</LIBRARY_CONSTRUCTION_PROTOCOL>''
             else [])
      in cat
        [Some ''\<newline>    <EXPERIMENT_SET>\<newline>    <EXPERIMENT alias="'', exp_alias,
         Some ''" center_name="'', center_name,
         Some ''">\<newline>       <TITLE>'', exp_alias,
         Some ''</TITLE>\<newline>       <STUDY_REF accession="'', Some study_accession,
         Some ''"/>\<newline>       <DESIGN>\<newline>           <DESIGN_DESCRIPTION/>\<newline>           <SAMPLE_DESCRIPTOR accession="'',
         sample_accession,
         Some ''"/>\<newline>           <LIBRARY_DESCRIPTOR>\<newline>               <LIBRARY_NAME/>\<newline>               <LIBRARY_STRATEGY>'',
         lib_strategy library_d,
         Some ''</LIBRARY_STRATEGY>\<newline>               <LIBRARY_SOURCE>'', Some (lib_source library_d),
         Some ''</LIBRARY_SOURCE>\<newline>               <LIBRARY_SELECTION>'', Some (lib_selection library_d),
         Some ''</LIBRARY_SELECTION>\<newline>               <LIBRARY_LAYOUT>'', Some ''<SINGLE />'',
         Some ''</LIBRARY_LAYOUT>\<newline>           '', Some e_protocol,
         Some ''\<newline>           </LIBRARY_DESCRIPTOR>\<newline>       </DESIGN>\<newline>       <PLATFORM>'',
         Some (platform_stanza instrument),
         Some ''\<newline>       </PLATFORM>\<newline>       <EXPERIMENT_ATTRIBUTES>'',
         Some (attribute_lines ''EXPERIMENT'' attributes),
         Some ''</EXPERIMENT_ATTRIBUTES>\<newline>    </EXPERIMENT>\<newline>    </EXPERIMENT_SET>\<newline>    ''])\<close>

text \<open>\<open>os.path.basename\<close>: what follows the last slash.\<close>

definition basename :: "string \<Rightarrow> string" where
  "basename p = rev (takeWhile (\<lambda>c. c \<noteq> CHR ''/'') (rev p))"

definition run_xml ::
  "string option \<Rightarrow> string \<Rightarrow> string option \<Rightarrow> string option \<Rightarrow> string \<Rightarrow> string
     \<Rightarrow> py_error + string" where
  \<open>run_xml run_alias fn exp_accession center_name fn_type fn_checksum =
     cat
       [Some ''\<newline>    <RUN_SET>\<newline>        <RUN alias="'', run_alias,
        Some ''" center_name="'', center_name,
        Some ''">\<newline>            <EXPERIMENT_REF accession="'', exp_accession,
        Some ''"/>\<newline>            <DATA_BLOCK>\<newline>                <FILES>\<newline>                    <FILE filename="'',
        Some (basename fn),
        Some ''" filetype="'', Some fn_type,
        Some ''" checksum_method="MD5" checksum="'', Some fn_checksum,
        Some ''" />\<newline>                </FILES>\<newline>            </DATA_BLOCK>\<newline>        </RUN>\<newline>    </RUN_SET>\<newline>    '']\<close>

section \<open>The outside world\<close>

text \<open>
  The services the client talks to are parameters of the model.  Each of them may answer
  differently at different times, so it is given the trace of the run so far.
  \<^item> \<open>env_bs\<close>: \<open>BeautifulSoup(content, 'xml')\<close>;
  \<^item> \<open>env_post\<close>: \<open>requests.post(url, files=..., auth=...)\<close>, the response or the exception
    of the transport (the credentials are the same in every request and are left out);
  \<^item> \<open>env_search\<close>: \<open>json.loads(requests.get(url).text)\<close>, a list of records;
  \<^item> \<open>env_ftp\<close>: the three FTP calls of \<open>register_run\<close> on a file path; \<open>Some e\<close> is the
    text of the exception that one of them raised;
  \<^item> \<open>env_hashfile\<close>: \<open>hashfile\<close> of \<open>pyena/util.py\<close>, which is imported and not part of
    the file modelled here;
  \<^item> \<open>env_today\<close>: \<open>datetime.today().strftime('%Y-%m-%d')\<close>.
\<close>

record response =
  r_status_code :: int
  r_text :: string

record env =
  env_bs :: "string \<Rightarrow> soup"
  env_post :: "event list \<Rightarrow> string \<Rightarrow> (string \<times> string) list \<Rightarrow> py_error + response"
  env_search :: "event list \<Rightarrow> string \<Rightarrow> py_error + (string \<times> string option) list list"
  env_ftp :: "event list \<Rightarrow> string option \<Rightarrow> string option"
  env_hashfile :: "event list \<Rightarrow> string option \<Rightarrow> py_error + string"
  env_today :: string

definition requests_post :: "env \<Rightarrow> string \<Rightarrow> (string \<times> string) list \<Rightarrow> response prog" where
  "requests_post env url files = (\<lambda>t. (env_post env t url files, t @ [Http_post url files]))"

definition search_url :: "string \<Rightarrow> string \<Rightarrow> string" where
  \<open>search_url project samp_name =
     ''https://www.ebi.ac.uk/ena/portal/api/search?query=study_accession=%22'' @ project
     @ ''%22%20AND%20sample_alias=%22'' @ samp_name
     @ ''%22&result=sample&fields=sample_accession,sample_description,sample_alias,secondary_sample_accession&limit=0&download=false&format=json''\<close>

definition get_sample_list ::
  "env \<Rightarrow> string \<Rightarrow> string \<Rightarrow> (string \<times> string option) list list prog" where
  "get_sample_list env project samp_name =
     (\<lambda>t. (env_search env t (search_url project samp_name),
            t @ [Http_get (search_url project samp_name)]))"

section \<open>The submission client\<close>

definition submit_url :: "bool \<Rightarrow> string" where
  "submit_url real =
     (if real then ''https://www.ebi.ac.uk/ena/submit/drop-box/submit/''
      else ''https://wwwdev.ebi.ac.uk/ena/submit/drop-box/submit/'')"

text \<open>\<open>_release_target(target, center_name, real)\<close>.\<close>

definition release_target :: "env \<Rightarrow> string option \<Rightarrow> string option \<Rightarrow> bool \<Rightarrow> response prog" where
  "release_target env target center_name real =
     andthen (lift (release_xml target center_name)) (\<lambda>xml.
       requests_post env (submit_url real) [(''SUBMISSION'', xml)])"

text \<open>
  \<open>submit_today(submit_type, payload, center_name, release_asap, real, modify)\<close>.  After
  the release request the variable \<open>status\<close> holds the outcome of the release response
  (line 209 assigns it again), and \<open>accession\<close> still the one of the first response.
\<close>

definition submit_today ::
  "env \<Rightarrow> string \<Rightarrow> string \<Rightarrow> string option \<Rightarrow> bool \<Rightarrow> bool \<Rightarrow> bool
     \<Rightarrow> (int \<times> string option) prog" where
  "submit_today env submit_type payload center_name release_asap real modify =
     andthen (lift (add_today (env_today env) center_name modify)) (\<lambda>submission.
     andthen (requests_post env (submit_url real)
                (dict_set ''SUBMISSION'' submission (dict_set submit_type payload []))) (\<lambda>r.
     andthen (handle_response (env_bs env) (r_status_code r) (r_text r) (Some submit_type))
       (\<lambda>(status, accession).
          if release_asap \<and> status = 0 then
            andthen (release_target env accession center_name real) (\<lambda>r.
            andthen (handle_response (env_bs env) (r_status_code r) (r_text r) None)
              (\<lambda>(status, _).
                 if status = 0 then
                   andthen (emit (Stderr (''[INFO] '' @ submit_type @ '' released successfully: ''
                                          @ str_opt accession @ [CHR 0x0A])))
                     (\<lambda>_. ret (status, accession))
                 else ret (status, accession)))
          else ret (status, accession))))"

text \<open>
  The three registrations.  Each records that it was entered, with the arguments the
  claims speak about, before it does anything else.
\<close>

definition register_sample ::
  "env \<Rightarrow> string \<Rightarrow> string \<Rightarrow> string \<Rightarrow> (string \<times> string) list \<Rightarrow> bool \<Rightarrow> bool
     \<Rightarrow> (int \<times> string option) prog" where
  "register_sample env sample_alias taxon_id center_name attributes real modify =
     andthen (emit (Called ''register_sample''
                      [(''sample_alias'', Some sample_alias), (''center_name'', Some center_name)]))
       (\<lambda>_.
          if modify then
            submit_today env ''SAMPLE'' (sample_xml sample_alias taxon_id center_name attributes)
              (Some center_name) False real modify
          else
            submit_today env ''SAMPLE'' (sample_xml sample_alias taxon_id center_name attributes)
              (Some center_name) True real modify)"

definition register_experiment ::
  "env \<Rightarrow> string option \<Rightarrow> string \<Rightarrow> string option \<Rightarrow> string \<Rightarrow> library_d \<Rightarrow> string option
     \<Rightarrow> (string \<times> string) list \<Rightarrow> bool \<Rightarrow> (int \<times> string option) prog" where
  "register_experiment env exp_alias study_accession sample_accession instrument library_d
       center_name attributes real =
     andthen (emit (Called ''register_experiment''
                      [(''exp_alias'', exp_alias), (''study_accession'', Some study_accession),
                       (''sample_accession'', sample_accession)]))
       (\<lambda>_.
     andthen (lift (experiment_xml exp_alias study_accession sample_accession instrument library_d
                      center_name attributes)) (\<lambda>e_xml.
       submit_today env ''EXPERIMENT'' e_xml center_name True real False))"

text \<open>
  \<open>register_run\<close>.  Every exception of the upload is caught (\<open>except Exception\<close>), also
  the TypeError of \<open>os.path.basename(None)\<close>.
\<close>

definition ftp_upload :: "env \<Rightarrow> string option \<Rightarrow> string option prog" where
  "ftp_upload env fn =
     (\<lambda>t. case env_ftp env t fn of
             Some e \<Rightarrow> (Inr (Some e), t)
           | None \<Rightarrow>
               (case fn of
                  None \<Rightarrow> (Inr (Some ''expected str, bytes or os.PathLike object, not NoneType''), t)
                | Some f \<Rightarrow> (Inr None, t @ [Ftp_stor (basename f)])))"

definition register_run ::
  "env \<Rightarrow> string option \<Rightarrow> string option \<Rightarrow> string option \<Rightarrow> string option \<Rightarrow> string
     \<Rightarrow> bool \<Rightarrow> bool \<Rightarrow> (int \<times> string option) prog" where
  "register_run env run_alias fn exp_accession center_name fn_type real upload =
     andthen (emit (Called ''register_run''
                      [(''run_alias'', run_alias), (''exp_accession'', exp_accession)])) (\<lambda>_.
     andthen (if upload then ftp_upload env fn else ret None) (\<lambda>failed.
       case failed of
         Some e \<Rightarrow>
           andthen (emit (Stderr (''[FAIL] FTP transfer timed out or failed for '' @ str_opt fn
                                  @ [CHR 0x0A] @ e)))
             (\<lambda>_. ret (- 1, None))
       | None \<Rightarrow>
           andthen (\<lambda>t. (env_hashfile env t fn, t)) (\<lambda>fn_checksum.
           andthen (lift (case fn of
                            None \<Rightarrow> Inl TypeError
                          | Some f \<Rightarrow> run_xml run_alias f exp_accession center_name fn_type
                                        fn_checksum)) (\<lambda>r_xml.
             submit_today env ''RUN'' r_xml center_name True real False))))"

section \<open>The orchestrator: \<open>cli\<close>\<close>

text \<open>The parsed command line; an option that was not given is \<open>None\<close>.\<close>

record args =
  my_data_is_ready :: bool
  no_ftp :: bool
  sample_only :: bool
  arg_modify :: bool
  arg_study_accession :: string
  sample_attr :: "(string \<times> string) list option"
  sample_name :: string
  sample_center_name :: string
  sample_taxon :: string
  experiment_attr :: "(string \<times> string) list option"
  run_name :: "string option"
  run_file_path :: "string option"
  run_file_type :: string
  run_center_name :: "string option"
  run_instrument :: "string option"
  run_lib_source :: "string option"
  run_lib_selection :: "string option"
  run_lib_strategy :: "string option"
  run_lib_protocol :: string

text \<open>\<open>x.replace("_", " ")\<close> on an option that may be \<open>None\<close>, and iterating over one.\<close>

definition replace_underscores :: "string option \<Rightarrow> py_error + string" where
  "replace_underscores x =
     (case x of None \<Rightarrow> Inl AttributeError | Some s \<Rightarrow> Inr (replace (CHR ''_'') '' '' s))"

definition attr_dict :: "(string \<times> string) list option \<Rightarrow> py_error + (string \<times> string) list" where
  "attr_dict x = (case x of None \<Rightarrow> Inl TypeError | Some pairs \<Rightarrow> Inr (dict_of pairs))"

text \<open>Lines 347 to 354: the sample is looked up, and registered when the search finds none.\<close>

definition cli_sample :: "env \<Rightarrow> args \<Rightarrow> (int \<times> string option) prog" where
  "cli_sample env args =
     andthen (get_sample_list env (arg_study_accession args) (sample_name args)) (\<lambda>samp_list.
       case samp_list of
         first # _ \<Rightarrow>
           andthen (lift (getitem first ''secondary_sample_accession'')) (\<lambda>acc.
           andthen (emit (Stderr (''[SKIP] Accession '' @ str_opt acc
                                  @ '' already exists. Moving on...'' @ [CHR 0x0A])))
             (\<lambda>_. ret (1, acc)))
       | [] \<Rightarrow>
           andthen (lift (attr_dict (sample_attr args))) (\<lambda>attributes.
             register_sample env (sample_name args) (sample_taxon args) (sample_center_name args)
               attributes (my_data_is_ready args) (arg_modify args)))"

text \<open>
  Lines 356 to 369.  The result is \<open>(success, exp_accession, run_accession, run_stat)\<close>
  as the four variables stand at line 371; \<open>run_stat\<close> is \<open>None\<close> while nothing was
  assigned to it.
\<close>

definition cli_register ::
  "env \<Rightarrow> args \<Rightarrow> int \<Rightarrow> string option
     \<Rightarrow> (int \<times> string option \<times> string option \<times> int option) prog" where
  "cli_register env args sample_stat sample_accession =
     (if sample_stat \<ge> 0 \<and> truthy sample_accession \<and> sample_only args then
        ret (1, None, None, None)
      else if sample_stat \<ge> 0 \<and> \<not> sample_only args then
        andthen (lift (replace_underscores (run_instrument args))) (\<lambda>instrument.
        andthen (lift (attr_dict (experiment_attr args))) (\<lambda>attributes.
        andthen (lift (replace_underscores (run_lib_source args))) (\<lambda>source.
        andthen (lift (replace_underscores (run_lib_selection args))) (\<lambda>selection.
        andthen (register_experiment env (run_name args) (arg_study_accession args)
                   sample_accession instrument
                   \<lparr>lib_source = source, lib_selection = selection,
                    lib_strategy = convert_library_strategy (run_lib_strategy args),
                    lib_protocol = run_lib_protocol args\<rparr>
                   (run_center_name args) attributes (my_data_is_ready args))
          (\<lambda>(exp_stat, exp_accession).
             if exp_stat \<ge> 0 then
               andthen (register_run env (run_name args) (run_file_path args) exp_accession
                          (run_center_name args) (run_file_type args) (my_data_is_ready args)
                          (\<not> no_ftp args))
                 (\<lambda>(run_stat, run_accession).
                    ret (if run_stat \<ge> 0 \<and> truthy run_accession then 1 else 0,
                         exp_accession, run_accession, Some run_stat))
             else ret (0, exp_accession, None, None))))))
      else ret (0, None, None, None))"

definition summary_line ::
  "args \<Rightarrow> int \<Rightarrow> string option \<Rightarrow> string option \<Rightarrow> string option \<Rightarrow> string" where
  "summary_line args success sample_accession exp_accession run_accession =
     join '' ''
       [str_int success,
        str_int (if my_data_is_ready args then 1 else 0),
        sample_name args,
        str_opt (run_name args),
        str_opt (run_file_path args),
        arg_study_accession args,
        str_opt sample_accession,
        str_opt exp_accession,
        str_opt run_accession]
     @ [CHR 0x0A]"

text \<open>
  Lines 382 to 387.  The value is the exit status that \<open>sys.exit\<close> is called with, or 0
  when \<open>cli\<close> returns; reading \<open>run_stat\<close> before any assignment raises
  UnboundLocalError.
\<close>

definition cli_exit :: "args \<Rightarrow> int \<Rightarrow> int option \<Rightarrow> py_error + int" where
  "cli_exit args success run_stat =
     (if success = 0 then
        (if sample_only args then Inr 2
         else (case run_stat of
                 None \<Rightarrow> Inl UnboundLocalError
               | Some rs \<Rightarrow> (if rs < 0 then Inr (abs rs) else Inr 2)))
      else Inr 0)"

text \<open>
  \<open>cli()\<close> from line 343 on, for the arguments that \<open>parse_args\<close> returned.  The result
  is the exit status of the process, or the exception that ends it.
\<close>

definition cli :: "env \<Rightarrow> args \<Rightarrow> int prog" where
  "cli env args =
     andthen (cli_sample env args) (\<lambda>(sample_stat, sample_accession).
     andthen (cli_register env args sample_stat sample_accession)
       (\<lambda>(success, exp_accession, run_accession, run_stat).
     andthen (emit (Stdout (summary_line args success sample_accession exp_accession run_accession)))
       (\<lambda>_. lift (cli_exit args success run_stat))))"

section \<open>Sample responses\<close>

text \<open>
  Receipts of the submission service as the parser returns them, and the texts of their
  ERROR elements.  They are the concrete inputs of the examples below.
\<close>

definition receipt_ok :: soup where
  "receipt_ok =
     [Tag ''RECEIPT'' [(''success'', ''true'')]
        [Tag ''SAMPLE'' [(''accession'', ''ERS123''), (''alias'', ''s1'')]
           [Tag ''EXT_ID'' [(''accession'', ''SAMEA1''), (''type'', ''biosample'')] []],
         Tag ''SUBMISSION'' [(''accession'', ''ERA1'')] [],
         Tag ''MESSAGES'' [] [Tag ''INFO'' [] [CData ''Submission has been committed.'']]]]"

definition duplicate_text :: string where
  \<open>duplicate_text =
     ''In sample, alias:"s1". The object being added already exists in the submission account with accession: "ABC123".''\<close>

definition receipt_duplicate :: soup where
  "receipt_duplicate =
     [Tag ''RECEIPT'' [(''success'', ''false'')]
        [Tag ''MESSAGES'' [] [Tag ''ERROR'' [] [CData duplicate_text]]]]"

definition upload_text :: string where
  \<open>upload_text = ''In run, alias:"r1". The file "a.bam" does not exist in the upload area.''\<close>

definition receipt_upload_then_duplicate :: soup where
  "receipt_upload_then_duplicate =
     [Tag ''RECEIPT'' [(''success'', ''false'')]
        [Tag ''MESSAGES'' []
           [Tag ''ERROR'' [] [CData upload_text], Tag ''ERROR'' [] [CData duplicate_text]]]]"

definition dotted_text :: string where
  \<open>dotted_text =
     ''The object being added already exists in the submission account with accession: "ERS.123".''\<close>

definition receipt_dotted :: soup where
  "receipt_dotted = [Tag ''RECEIPT'' [] [Tag ''MESSAGES'' [] [Tag ''ERROR'' [] [CData dotted_text]]]]"

definition both_text :: string where
  \<open>both_text =
     ''The file "a.bam" does not exist in the upload area. The run already exists in the submission account with accession: "ERR1".''\<close>

definition receipt_both :: soup where
  "receipt_both = [Tag ''RECEIPT'' [] [Tag ''MESSAGES'' [] [Tag ''ERROR'' [] [CData both_text]]]]"

definition receipt_upload :: soup where
  "receipt_upload = [Tag ''RECEIPT'' [] [Tag ''MESSAGES'' [] [Tag ''ERROR'' [] [CData upload_text]]]]"

text \<open>
  The texts of three receipts and what the parser makes of them, and a world for the
  examples: the search finds \<open>found\<close>, a request with the files \<open>files\<close> is answered by
  \<open>reply files\<close>, and the upload and the checksum succeed.
\<close>

definition receipt_ok_text :: string where
  \<open>receipt_ok_text =
     ''<RECEIPT success="true"><SAMPLE accession="ERS123" alias="s1"><EXT_ID accession="SAMEA1" type="biosample"/></SAMPLE><SUBMISSION accession="ERA1"/><MESSAGES><INFO>Submission has been committed.</INFO></MESSAGES></RECEIPT>''\<close>

definition receipt_experiment_text :: string where
  \<open>receipt_experiment_text =
     ''<RECEIPT success="true"><EXPERIMENT accession="ERX7" alias="r1"/><MESSAGES/></RECEIPT>''\<close>

definition receipt_experiment :: soup where
  "receipt_experiment =
     [Tag ''RECEIPT'' [(''success'', ''true'')]
        [Tag ''EXPERIMENT'' [(''accession'', ''ERX7''), (''alias'', ''r1'')] [],
         Tag ''MESSAGES'' [] []]]"

definition receipt_run_text :: string where
  \<open>receipt_run_text =
     ''<RECEIPT success="true"><RUN accession="ERR9" alias="r1"/><MESSAGES/></RECEIPT>''\<close>

definition receipt_run :: soup where
  "receipt_run =
     [Tag ''RECEIPT'' [(''success'', ''true'')]
        [Tag ''RUN'' [(''accession'', ''ERR9''), (''alias'', ''r1'')] [],
         Tag ''MESSAGES'' [] []]]"

definition receipt_release_text :: string where
  \<open>receipt_release_text = ''<RECEIPT success="true"><MESSAGES/><ACTIONS>RELEASE</ACTIONS></RECEIPT>''\<close>

definition receipt_release :: soup where
  "receipt_release =
     [Tag ''RECEIPT'' [(''success'', ''true'')]
        [Tag ''MESSAGES'' [] [], Tag ''ACTIONS'' [] [CData ''RELEASE'']]]"

definition parse_receipt :: "string \<Rightarrow> soup" where
  "parse_receipt content =
     (if content = receipt_ok_text then receipt_ok
      else if content = receipt_experiment_text then receipt_experiment
      else if content = receipt_run_text then receipt_run
      else if content = receipt_release_text then receipt_release
      else [])"

definition world :: "(string \<times> string option) list list \<Rightarrow> ((string \<times> string) list \<Rightarrow> response) \<Rightarrow> env" where
  "world found reply =
     \<lparr>env_bs = parse_receipt,
      env_post = (\<lambda>t url files. Inr (reply files)),
      env_search = (\<lambda>t url. Inr found),
      env_ftp = (\<lambda>t fn. None),
      env_hashfile = (\<lambda>t fn. Inr ''d41d8cd98f00b204e9800998ecf8427e''),
      env_today = ''2026-11-03''\<rparr>"

text \<open>Every request is refused with status 500.\<close>

definition reply_500 :: "(string \<times> string) list \<Rightarrow> response" where
  "reply_500 files = \<lparr>r_status_code = 500, r_text = ''Internal Server Error''\<rparr>"

text \<open>The submission of a sample is accepted, every other request is refused.\<close>

definition reply_release_fails :: "(string \<times> string) list \<Rightarrow> response" where
  "reply_release_fails files =
     (if map_of files ''SAMPLE'' \<noteq> None
      then \<lparr>r_status_code = 200, r_text = receipt_ok_text\<rparr>
      else \<lparr>r_status_code = 500, r_text = ''Internal Server Error''\<rparr>)"

text \<open>Every request is accepted.\<close>

definition reply_ok :: "(string \<times> string) list \<Rightarrow> response" where
  "reply_ok files =
     (if map_of files ''SAMPLE'' \<noteq> None then \<lparr>r_status_code = 200, r_text = receipt_ok_text\<rparr>
      else if map_of files ''EXPERIMENT'' \<noteq> None
        then \<lparr>r_status_code = 200, r_text = receipt_experiment_text\<rparr>
      else if map_of files ''RUN'' \<noteq> None then \<lparr>r_status_code = 200, r_text = receipt_run_text\<rparr>
      else \<lparr>r_status_code = 200, r_text = receipt_release_text\<rparr>)"

text \<open>The command line of a full run: sample, experiment and run.\<close>

definition args_full :: args where
  "args_full =
     \<lparr>my_data_is_ready = False, no_ftp = False, sample_only = False, arg_modify = False,
      arg_study_accession = ''PRJEB1'', sample_attr = Some [(''collection date'', ''2020'')],
      sample_name = ''s1'', sample_center_name = ''CENTRE'', sample_taxon = ''2697049'',
      experiment_attr = Some [], run_name = Some ''r1'', run_file_path = Some ''/data/r1.bam'',
      run_file_type = ''bam'', run_center_name = Some ''CENTRE'',
      run_instrument = Some ''Illumina_MiSeq'', run_lib_source = Some ''VIRAL_RNA'',
      run_lib_selection = Some ''PCR'', run_lib_strategy = Some ''AMPLICON'',
      run_lib_protocol = []\<rparr>"

text \<open>What the search returns for a sample that is registered already.\<close>

definition found_sample :: "(string \<times> string option) list list" where
  "found_sample =
     [[(''sample_accession'', Some ''SAMEA1''), (''sample_description'', Some []),
       (''sample_alias'', Some ''s1''), (''secondary_sample_accession'', Some ''ERS123'')]]"

section \<open>Auxiliary facts\<close>

subsection \<open>Running a computation\<close>

lemma ret_apply [simp]: "ret x t = (Inr x, t)"
  by (simp add: ret_def)

lemma raise_apply [simp]: "raise e t = (Inl e, t)"
  by (simp add: raise_def)

lemma emit_apply [simp]: "emit e t = (Inr (), t @ [e])"
  by (simp add: emit_def)

lemma lift_Inr [simp]: "lift (Inr x) = ret x"
  by (simp add: lift_def)

lemma lift_Inl [simp]: "lift (Inl e) = raise e"
  by (simp add: lift_def)

lemma andthen_ret [simp]: "andthen (ret x) f = f x"
  by (simp add: andthen_def ret_def)

lemma andthen_raise [simp]: "andthen (raise e) f = raise e"
  by (simp add: andthen_def raise_def)

lemma andthen_emit [simp]: "andthen (emit e) f t = f () (t @ [e])"
  by (simp add: andthen_def emit_def)

text \<open>
  The simplifier reads \<open>ret x t = (Inr x, t)\<close> as \<open>ret x = Pair (Inr x)\<close>; the next two facts
  keep \<open>andthen\<close> reducing after that.
\<close>

lemma andthen_Pair_Inr [simp]: "andthen (Pair (Inr x)) f = f x"
  by (simp add: andthen_def)

lemma andthen_Pair_Inl [simp]: "andthen (Pair (Inl e)) f = Pair (Inl e)"
  by (simp add: andthen_def)

lemma andthen_apply: "andthen m f t = (case m t of (Inl e, t') \<Rightarrow> (Inl e, t') | (Inr x, t') \<Rightarrow> f x t')"
  by (simp add: andthen_def)

lemma andthen_Inr: "m t = (Inr x, t') \<Longrightarrow> andthen m f t = f x t'"
  by (simp add: andthen_def)

lemma andthen_Inl: "m t = (Inl e, t') \<Longrightarrow> andthen m f t = (Inl e, t')"
  by (simp add: andthen_def)


subsection \<open>Substrings and tokens\<close>

lemma startswith_iff: "startswith s p \<longleftrightarrow> (\<exists>v. s = p @ v)"
  by (induction s p rule: startswith.induct) auto

lemma py_in_iff: "py_in p s \<longleftrightarrow> (\<exists>u v. s = u @ p @ v)"
proof (induction s)
  case Nil
  then show ?case by auto
next
  case (Cons c cs)
  show ?case
  proof
    assume "py_in p (c # cs)"
    then consider "startswith (c # cs) p" | "py_in p cs" by auto
    then show "\<exists>u v. c # cs = u @ p @ v"
    proof cases
      case 1
      then obtain v where "c # cs = p @ v" by (auto simp: startswith_iff)
      then have "c # cs = [] @ p @ v" by simp
      then show ?thesis by blast
    next
      case 2
      then obtain u v where "cs = u @ p @ v" using Cons.IH by auto
      then have "c # cs = (c # u) @ p @ v" by simp
      then show ?thesis by blast
    qed
  next
    assume "\<exists>u v. c # cs = u @ p @ v"
    then obtain u v where uv: "c # cs = u @ p @ v" by auto
    show "py_in p (c # cs)"
    proof (cases u)
      case Nil
      then have "startswith (c # cs) p" using uv by (auto simp: startswith_iff)
      then show ?thesis by simp
    next
      case (Cons a u')
      then have "cs = u' @ p @ v" using uv by simp
      then have "py_in p cs" using Cons.IH by auto
      then show ?thesis by simp
    qed
  qed
qed

lemma length_split_from: "length (split_from cur s) = count_from (cur \<noteq> []) s"
  by (induction s arbitrary: cur) simp_all

lemma count_from_mono: "count_from False s \<le> count_from True s"
  by (cases s) simp_all

lemma count_from_Cons: "count_from False s \<le> count_from False (c # s)"
  using count_from_mono [of s] by simp

lemma count_from_prepend: "count_from False s \<le> count_from False (u @ s)"
proof (induction u)
  case Nil
  show ?case by simp
next
  case (Cons a u)
  have "count_from False (u @ s) \<le> count_from False (a # u @ s)"
    by (rule count_from_Cons)
  with Cons show ?case by simp
qed

lemma count_from_True_pos: "1 \<le> count_from True v"
  by (induction v) simp_all

lemma count_from_append: "count_from b s \<le> count_from b (s @ v)"
proof (induction s arbitrary: b)
  case Nil
  show ?case using count_from_True_pos [of v] by (cases b) simp_all
next
  case (Cons c s)
  show ?case using Cons [of False] Cons [of True] by simp
qed

lemma str_split_length_infix:
  "length (str_split p) \<le> length (str_split (u @ p @ v))"
proof -
  have "count_from False p \<le> count_from False (p @ v)" by (rule count_from_append)
  also have "\<dots> \<le> count_from False (u @ p @ v)" by (rule count_from_prepend)
  finally show ?thesis by (simp add: str_split_def length_split_from)
qed

lemma already_exists_tokens: "py_in already_exists txt \<Longrightarrow> str_split txt \<noteq> []"
proof -
  assume "py_in already_exists txt"
  then obtain u v where "txt = u @ already_exists @ v" by (auto simp: py_in_iff)
  then have "length (str_split already_exists) \<le> length (str_split txt)"
    by (simp add: str_split_length_infix)
  moreover have "length (str_split already_exists) = 8"
    by (simp add: str_split_def length_split_from already_exists_def isspace_def)
  ultimately show ?thesis by auto
qed

lemma already_submitted_tokens: "py_in already_submitted txt \<Longrightarrow> 4 < length (str_split txt)"
proof -
  assume "py_in already_submitted txt"
  then obtain u v where "txt = u @ already_submitted @ v" by (auto simp: py_in_iff)
  then have "length (str_split already_submitted) \<le> length (str_split txt)"
    by (simp add: str_split_length_infix)
  moreover have "length (str_split already_submitted) = 10"
    by (simp add: str_split_def length_split_from already_submitted_def isspace_def)
  ultimately show ?thesis by auto
qed

lemma py_index_last: "xs \<noteq> [] \<Longrightarrow> py_index xs (- 1) = Inr (last xs)"
  by (cases xs rule: rev_cases) (auto simp: py_index_def nth_append)

lemma py_index_nat: "n < length xs \<Longrightarrow> py_index xs (int n) = Inr (xs ! n)"
  by (simp add: py_index_def)

subsection \<open>The loop over the ERROR elements\<close>

lemma scan_errors_exists:
  "py_in already_exists txt \<Longrightarrow>
   scan_errors (txt # ts) st t =
     (Inr (1, Some (replace (CHR ''.'') [] (replace (CHR 0x22) [] (last (str_split txt))))),
      t @ [Stderr (''[SKIP] Accession ''
                   @ replace (CHR ''.'') [] (replace (CHR 0x22) [] (last (str_split txt)))
                   @ '' already exists. Moving on...'' @ [CHR 0x0A])])"
  by (simp add: already_exists_tokens py_index_last Let_def)

lemma scan_errors_submitted:
  "\<not> py_in already_exists txt \<Longrightarrow> py_in already_submitted txt \<Longrightarrow>
   scan_errors (txt # ts) st t =
     (Inr (1, Some (str_split txt ! 4)),
      t @ [Stderr (''[SKIP] File '' @ str_split txt ! 4
                   @ '' already uploaded. Cannot release again. Moving on...'' @ [CHR 0x0A])])"
  using py_index_nat [of 4 "str_split txt"]
  by (simp add: already_submitted_tokens)

lemma scan_errors_not_uploaded:
  "\<not> py_in already_exists txt \<Longrightarrow> \<not> py_in already_submitted txt \<Longrightarrow> py_in not_uploaded txt \<Longrightarrow>
   scan_errors (txt # ts) st t = (Inr (- 3, snd st), t)"
  by simp

lemma scan_errors_next:
  "\<not> py_in already_exists txt \<Longrightarrow> \<not> py_in already_submitted txt \<Longrightarrow> \<not> py_in not_uploaded txt \<Longrightarrow>
   scan_errors (txt # ts) st t = scan_errors ts st t"
  by simp

lemma scan_errors_skip:
  "\<forall>x \<in> set pre. \<not> py_in already_exists x \<and> \<not> py_in already_submitted x \<and> \<not> py_in not_uploaded x \<Longrightarrow>
   scan_errors (pre @ rest) st t = scan_errors rest st t"
  by (induction pre) (simp_all add: scan_errors_next del: scan_errors.simps)

lemma scan_errors_total:
  "\<exists>code acc evs. scan_errors ts st t = (Inr (code, acc), t @ evs)
      \<and> ((code, acc) = st \<or> (code = 1 \<and> acc \<noteq> None) \<or> (code = - 3 \<and> acc = snd st))"
proof (induction ts)
  case Nil
  show ?case by (cases st) simp
next
  case (Cons e_text ts)
  consider (a) "py_in already_exists e_text"
    | (b) "\<not> py_in already_exists e_text" "py_in already_submitted e_text"
    | (c) "\<not> py_in already_exists e_text" "\<not> py_in already_submitted e_text" "py_in not_uploaded e_text"
    | (d) "\<not> py_in already_exists e_text" "\<not> py_in already_submitted e_text" "\<not> py_in not_uploaded e_text"
    by blast
  then show ?case
  proof cases
    case a
    show ?thesis unfolding scan_errors_exists [OF a] by blast
  next
    case b
    show ?thesis unfolding scan_errors_submitted [OF b] by blast
  next
    case c
    show ?thesis unfolding scan_errors_not_uploaded [OF c] by simp
  next
    case d
    show ?thesis unfolding scan_errors_next [OF d] by (rule Cons)
  qed
qed

lemma scan_errors_no_duplicate:
  "\<forall>x \<in> set pre. \<not> py_in already_exists x \<and> \<not> py_in already_submitted x \<Longrightarrow>
   \<not> py_in already_exists e_text \<Longrightarrow> \<not> py_in already_submitted e_text \<Longrightarrow>
   py_in not_uploaded e_text \<Longrightarrow>
   scan_errors (pre @ e_text # post) st t = (Inr (- 3, snd st), t)"
  by (induction pre) simp_all

subsection \<open>What a computation adds to the trace\<close>

lemma emits_Pair [simp]: "emits P (Pair r)"
  by (simp add: emits_def)

lemma emits_ret: "emits P (ret x)"
  by (simp add: emits_def)

lemma emits_raise: "emits P (raise e)"
  by (simp add: emits_def)

lemma emits_lift: "emits P (lift r)"
  by (cases r) (simp_all add: emits_ret emits_raise)

lemma emits_emit: "P e \<Longrightarrow> emits P (emit e)"
  by (simp add: emits_def)

lemma emits_andthen:
  assumes "emits P m" and "\<And>x. emits P (f x)"
  shows "emits P (andthen m f)"
  unfolding emits_def
proof
  fix t
  obtain evs where m: "snd (m t) = t @ evs" and p: "\<forall>e \<in> set evs. P e"
    using assms(1) unfolding emits_def by blast
  show "\<exists>evs. snd (andthen m f t) = t @ evs \<and> (\<forall>e \<in> set evs. P e)"
  proof (cases "fst (m t)")
    case (Inl e)
    then have "m t = (Inl e, t @ evs)" using m by (cases "m t") simp
    then show ?thesis using p by (simp add: andthen_Inl)
  next
    case (Inr x)
    then have mt: "m t = (Inr x, t @ evs)" using m by (cases "m t") simp
    obtain evs' where f: "snd (f x (t @ evs)) = (t @ evs) @ evs'" and p': "\<forall>e \<in> set evs'. P e"
      using assms(2) [of x] unfolding emits_def by blast
    have "snd (andthen m f t) = t @ (evs @ evs')"
      using mt f by (simp add: andthen_Inr)
    moreover have "\<forall>e \<in> set (evs @ evs'). P e" using p p' by auto
    ultimately show ?thesis by blast
  qed
qed

lemma emits_if: "(c \<Longrightarrow> emits P a) \<Longrightarrow> (\<not> c \<Longrightarrow> emits P b) \<Longrightarrow> emits P (if c then a else b)"
  by simp

lemma emits_case_prod: "(\<And>a b. emits P (f a b)) \<Longrightarrow> emits P (case x of (a, b) \<Rightarrow> f a b)"
  by (cases x) simp

lemma emits_case_option:
  "emits P a \<Longrightarrow> (\<And>y. emits P (f y)) \<Longrightarrow> emits P (case x of None \<Rightarrow> a | Some y \<Rightarrow> f y)"
  by (cases x) simp_all

lemma emits_case_list:
  "emits P a \<Longrightarrow> (\<And>y ys. emits P (f y ys)) \<Longrightarrow> emits P (case x of [] \<Rightarrow> a | y # ys \<Rightarrow> f y ys)"
  by (cases x) simp_all

lemmas emits_intros =
  emits_ret emits_raise emits_lift emits_andthen emits_if emits_case_prod emits_case_option
  emits_case_list

lemma emits_scan_errors:
  assumes "\<And>s. P (Stderr s)"
  shows "emits P (scan_errors ts st)"
proof (induction ts)
  case Nil
  show ?case by (simp add: emits_ret)
next
  case (Cons x ts)
  show ?case
    unfolding scan_errors.simps Let_def
    by (intro emits_intros emits_emit assms Cons)
qed

lemma emits_handle_response:
  assumes "\<And>s. P (Stderr s)"
  shows "emits P (handle_response bs status_code content accession)"
  unfolding handle_response_def Let_def
  by (intro emits_intros emits_emit assms emits_scan_errors)

lemma emits_requests_post: "P (Http_post url files) \<Longrightarrow> emits P (requests_post env url files)"
  by (simp add: emits_def requests_post_def)

lemma emits_release_target:
  "(\<And>xml. P (Http_post (submit_url real) [(''SUBMISSION'', xml)])) \<Longrightarrow>
   emits P (release_target env target center_name real)"
  unfolding release_target_def
  by (intro emits_intros emits_requests_post)

lemma emits_submit_today:
  assumes "\<And>s. P (Stderr s)"
    and "\<And>sub. P (Http_post (submit_url real) (dict_set ''SUBMISSION'' sub (dict_set submit_type payload [])))"
    and "\<And>xml. P (Http_post (submit_url real) [(''SUBMISSION'', xml)])"
  shows "emits P (submit_today env submit_type payload center_name release_asap real modify)"
  unfolding submit_today_def
  by (intro emits_intros emits_requests_post emits_handle_response emits_release_target emits_emit assms)

lemma emitsD: "emits P m \<Longrightarrow> \<exists>evs. snd (m t) = t @ evs \<and> (\<forall>e \<in> set evs. P e)"
  by (simp add: emits_def)

subsection \<open>Envelopes and the submission client\<close>

lemma occurrences_skip:
  "c0 \<notin> set xs \<Longrightarrow> occurrences (c0 # p) (xs @ ys) = occurrences (c0 # p) ys"
  by (induction xs) auto

lemma add_today_modify:
  \<open>add_today today (Some center_name) True =
     Inr (''\<newline>    <SUBMISSION center_name="'' @ center_name
          @ ''">\<newline>    <ACTIONS>\<newline>        <ACTION>\<newline>            <MODIFY/>\<newline>        </ACTION>\<newline>    </ACTIONS>\<newline>    </SUBMISSION>\<newline>    '')\<close>
  by (simp add: add_today_def add_today_action_def cat_def)

lemma andthen_ret_right [simp]: "andthen m ret = m"
  by (rule ext) (auto simp: andthen_def split: prod.splits sum.splits)

lemma andthen_ret_pair [simp]: "andthen m (\<lambda>(a, b). ret (a, b)) = m"
  by (rule ext) (auto simp: andthen_def split: prod.splits sum.splits)

lemma submit_today_no_release:
  assumes "add_today (env_today env) center_name modify = Inr E"
  shows "submit_today env submit_type payload center_name False real modify t =
     (case env_post env t (submit_url real) (dict_set ''SUBMISSION'' E (dict_set submit_type payload [])) of
        Inl e \<Rightarrow> (Inl e, t @ [Http_post (submit_url real) (dict_set ''SUBMISSION'' E (dict_set submit_type payload []))])
      | Inr r \<Rightarrow> handle_response (env_bs env) (r_status_code r) (r_text r) (Some submit_type)
                  (t @ [Http_post (submit_url real) (dict_set ''SUBMISSION'' E (dict_set submit_type payload []))]))"
proof -
  have "submit_today env submit_type payload center_name False real modify =
          andthen (requests_post env (submit_url real)
                     (dict_set ''SUBMISSION'' E (dict_set submit_type payload [])))
            (\<lambda>r. handle_response (env_bs env) (r_status_code r) (r_text r) (Some submit_type))"
    by (simp add: submit_today_def assms del: dict_set.simps)
  then show ?thesis
    by (simp add: andthen_def requests_post_def split: sum.splits del: dict_set.simps)
qed

lemma register_sample_modify_run:
  assumes "add_today (env_today env) (Some center_name) True = Inr E"
  shows "register_sample env sample_alias taxon_id center_name attributes real True t =
     (case env_post env
             (t @ [Called ''register_sample''
                     [(''sample_alias'', Some sample_alias), (''center_name'', Some center_name)]])
             (submit_url real)
             [(''SAMPLE'', sample_xml sample_alias taxon_id center_name attributes), (''SUBMISSION'', E)] of
        Inl e \<Rightarrow>
          (Inl e, t @ [Called ''register_sample''
                         [(''sample_alias'', Some sample_alias), (''center_name'', Some center_name)],
                       Http_post (submit_url real)
                         [(''SAMPLE'', sample_xml sample_alias taxon_id center_name attributes),
                          (''SUBMISSION'', E)]])
      | Inr r \<Rightarrow>
          handle_response (env_bs env) (r_status_code r) (r_text r) (Some ''SAMPLE'')
            (t @ [Called ''register_sample''
                    [(''sample_alias'', Some sample_alias), (''center_name'', Some center_name)],
                  Http_post (submit_url real)
                    [(''SAMPLE'', sample_xml sample_alias taxon_id center_name attributes),
                     (''SUBMISSION'', E)]]))"
proof -
  have files: "dict_set ''SUBMISSION'' E
                 (dict_set ''SAMPLE'' (sample_xml sample_alias taxon_id center_name attributes) [])
               = [(''SAMPLE'', sample_xml sample_alias taxon_id center_name attributes),
                  (''SUBMISSION'', E)]"
    by simp
  show ?thesis
    unfolding register_sample_def
    by (simp add: submit_today_no_release [OF assms] files split: sum.splits del: dict_set.simps)
qed

lemma release_xml_Some:
  \<open>release_xml target (Some c) =
     Inr (''\<newline>    <SUBMISSION center_name="'' @ c
          @ ''">\<newline>    <ACTIONS>\<newline>        <ACTION>\<newline>            <RELEASE target="''
          @ str_opt target
          @ ''" />\<newline>        </ACTION>\<newline>    </ACTIONS>\<newline>    </SUBMISSION>\<newline>    '')\<close>
  by (simp add: release_xml_def cat_def)

lemma submit_today_release_run:
  assumes sub: "add_today (env_today env) center_name modify = Inr submission"
    and files: "files = dict_set ''SUBMISSION'' submission (dict_set submit_type payload [])"
    and first: "env_post env t (submit_url real) files = Inr r1"
    and ok: "handle_response (env_bs env) (r_status_code r1) (r_text r1) (Some submit_type)
               (t @ [Http_post (submit_url real) files]) = (Inr (0, accession), t2)"
    and rel: "release_xml accession center_name = Inr rx"
    and second: "env_post env t2 (submit_url real) [(''SUBMISSION'', rx)] = Inr r2"
    and cls: "handle_response (env_bs env) (r_status_code r2) (r_text r2) None
                (t2 @ [Http_post (submit_url real) [(''SUBMISSION'', rx)]]) = (Inr (status2, accession2), t3)"
  shows "submit_today env submit_type payload center_name True real modify t =
           (Inr (status2, accession),
            t3 @ (if status2 = 0
                  then [Stderr (''[INFO] '' @ submit_type @ '' released successfully: ''
                                @ str_opt accession @ [CHR 0x0A])]
                  else []))"
proof -
  have post1: "requests_post env (submit_url real) files t = (Inr r1, t @ [Http_post (submit_url real) files])"
    by (simp add: requests_post_def first)
  have post2: "release_target env accession center_name real t2
                 = (Inr r2, t2 @ [Http_post (submit_url real) [(''SUBMISSION'', rx)]])"
    by (simp add: release_target_def rel requests_post_def second)
  define k where "k = (\<lambda>r :: response. andthen (handle_response (env_bs env) (r_status_code r) (r_text r) (Some submit_type))
       (\<lambda>(status, accession).
          if True \<and> status = 0 then
            andthen (release_target env accession center_name real) (\<lambda>r.
            andthen (handle_response (env_bs env) (r_status_code r) (r_text r) None)
              (\<lambda>(status, _).
                 if status = 0 then
                   andthen (emit (Stderr (''[INFO] '' @ submit_type @ '' released successfully: ''
                                          @ str_opt accession @ [CHR 0x0A])))
                     (\<lambda>_. ret (status, accession))
                 else ret (status, accession)))
          else ret (status, accession)))"
  have "submit_today env submit_type payload center_name True real modify t =
          andthen (requests_post env (submit_url real) files) k t"
    unfolding submit_today_def k_def by (simp add: sub files del: dict_set.simps)
  also have "\<dots> = k r1 (t @ [Http_post (submit_url real) files])"
    by (simp add: andthen_apply post1)
  also have "\<dots> = andthen (release_target env accession center_name real) (\<lambda>r.
            andthen (handle_response (env_bs env) (r_status_code r) (r_text r) None)
              (\<lambda>(status, _).
                 if status = 0 then
                   andthen (emit (Stderr (''[INFO] '' @ submit_type @ '' released successfully: ''
                                          @ str_opt accession @ [CHR 0x0A])))
                     (\<lambda>_. ret (status, accession))
                 else ret (status, accession))) t2"
    unfolding k_def by (simp add: andthen_apply ok)
  also have "\<dots> = (Inr (status2, accession),
            t3 @ (if status2 = 0
                  then [Stderr (''[INFO] '' @ submit_type @ '' released successfully: ''
                                @ str_opt accession @ [CHR 0x0A])]
                  else []))"
    by (simp add: andthen_apply post2 cls)
  finally show ?thesis .
qed

lemma classify_receipt_ok:
  "handle_response parse_receipt 200 receipt_ok_text (Some ''SAMPLE'') t = (Inr (0, Some ''ERS123''), t)"
  by (simp add: handle_response_def parse_receipt_def receipt_ok_def findAll_def find_first_def truthy_def)

lemma classify_receipt_release:
  "handle_response parse_receipt 200 receipt_release_text None t = (Inr (0, None), t)"
  by (simp add: handle_response_def parse_receipt_def receipt_release_def findAll_def truthy_def
      receipt_release_text_def receipt_ok_text_def receipt_experiment_text_def receipt_run_text_def)

lemma classify_500:
  "handle_response bs 500 content accession t = (Inr (- 1, None), t @ [Stderr (not_200_message 500 content)])"
  by (simp add: handle_response_def)

subsection \<open>The instrument table\<close>

lemma py_in_prefix: "py_in (a @ b) s \<Longrightarrow> py_in a s"
proof -
  assume "py_in (a @ b) s"
  then obtain u v where "s = u @ (a @ b) @ v" by (auto simp: py_in_iff)
  then have "s = u @ a @ (b @ v)" by simp
  then show ?thesis unfolding py_in_iff by blast
qed

subsection \<open>The orchestrator\<close>

lemma emits_ftp_upload: "(\<And>f. P (Ftp_stor f)) \<Longrightarrow> emits P (ftp_upload env fn)"
  by (auto simp: emits_def ftp_upload_def split: option.splits)

lemma emits_silent: "emits P (\<lambda>t. (g t, t))"
  by (simp add: emits_def)

lemma keeps_sample_simps [simp]:
  "keeps_sample acc (Stderr s)"
  "keeps_sample acc (Stdout s)"
  "keeps_sample acc (Http_get url)"
  "keeps_sample acc (Ftp_stor f)"
  "keeps_sample acc (Http_post url files) \<longleftrightarrow> map_of files ''SAMPLE'' = None"
  "keeps_sample acc (Called name a) \<longleftrightarrow>
     name \<noteq> ''register_sample''
     \<and> (name = ''register_experiment'' \<longrightarrow> map_of a ''sample_accession'' = Some acc)"
  by (simp_all add: keeps_sample_def)

lemma keeps_sample_submit_today:
  assumes "submit_type \<noteq> ''SAMPLE''"
  shows "emits (keeps_sample acc)
           (submit_today env submit_type payload center_name release_asap real modify)"
  by (rule emits_submit_today) (use assms in auto)

lemma keeps_sample_register_experiment:
  "emits (keeps_sample acc)
     (register_experiment env exp_alias study_accession acc instrument library_d center_name
        attributes real)"
  unfolding register_experiment_def
  by (intro emits_intros emits_emit keeps_sample_submit_today) simp_all

lemma keeps_sample_register_run:
  "emits (keeps_sample acc)
     (register_run env run_alias fn exp_accession center_name fn_type real upload)"
  unfolding register_run_def
  by (intro emits_intros emits_emit keeps_sample_submit_today emits_ftp_upload emits_silent) simp_all

lemma keeps_sample_cli_register:
  "emits (keeps_sample acc) (cli_register env args sample_stat acc)"
  unfolding cli_register_def
  by (intro emits_intros keeps_sample_register_experiment keeps_sample_register_run)

lemma cli_sample_found:
  assumes "env_search env t (search_url (arg_study_accession args) (sample_name args)) = Inr (first # rest)"
  shows "cli_sample env args t =
     (case map_of first ''secondary_sample_accession'' of
        None \<Rightarrow> (Inl KeyError, t @ [Http_get (search_url (arg_study_accession args) (sample_name args))])
      | Some acc \<Rightarrow>
          (Inr (1, acc),
           t @ [Http_get (search_url (arg_study_accession args) (sample_name args)),
                Stderr (''[SKIP] Accession '' @ str_opt acc @ '' already exists. Moving on...''
                        @ [CHR 0x0A])]))"
  by (simp add: cli_sample_def get_sample_list_def andthen_apply assms getitem_def
      split: option.splits)

lemma cli_after_sample:
  assumes "cli_sample env args t = (Inr (sample_stat, sample_accession), t1)"
  shows "cli env args t =
     andthen (cli_register env args sample_stat sample_accession)
       (\<lambda>(success, exp_accession, run_accession, run_stat).
          andthen (emit (Stdout (summary_line args success sample_accession exp_accession
                                   run_accession)))
            (\<lambda>_. lift (cli_exit args success run_stat))) t1"
  by (simp add: cli_def andthen_apply assms)

lemma emits_any_submit_today:
  "emits (\<lambda>_. True) (submit_today env submit_type payload center_name release_asap real modify)"
  by (rule emits_submit_today) simp_all

lemma emits_any_register_run:
  "emits (\<lambda>_. True) (register_run env run_alias fn exp_accession center_name fn_type real upload)"
  unfolding register_run_def
  by (intro emits_intros emits_emit emits_any_submit_today emits_ftp_upload emits_silent) simp_all

lemma begins_with_emit:
  assumes "\<And>x. emits (\<lambda>_. True) (f x)"
  shows "begins_with e (andthen (emit e) f)"
  unfolding begins_with_def
proof
  fix t
  obtain evs where "snd (f () (t @ [e])) = (t @ [e]) @ evs"
    using assms [of "()"] unfolding emits_def by blast
  then show "\<exists>evs. snd (andthen (emit e) f t) = t @ e # evs"
    by simp
qed

lemma begins_with_andthen:
  assumes "begins_with e m" and "\<And>x. emits (\<lambda>_. True) (f x)"
  shows "begins_with e (andthen m f)"
  unfolding begins_with_def
proof
  fix t
  obtain evs where m: "snd (m t) = t @ e # evs"
    using assms(1) unfolding begins_with_def by blast
  show "\<exists>evs. snd (andthen m f t) = t @ e # evs"
  proof (cases "fst (m t)")
    case (Inl err)
    then have "m t = (Inl err, t @ e # evs)" using m by (cases "m t") simp
    then show ?thesis by (simp add: andthen_Inl)
  next
    case (Inr x)
    then have mt: "m t = (Inr x, t @ e # evs)" using m by (cases "m t") simp
    obtain evs' where "snd (f x (t @ e # evs)) = (t @ e # evs) @ evs'"
      using assms(2) [of x] unfolding emits_def by blast
    then have "snd (andthen m f t) = t @ e # (evs @ evs')"
      using mt by (simp add: andthen_Inr)
    then show ?thesis by blast
  qed
qed

lemma register_experiment_begins:
  "begins_with
     (Called ''register_experiment''
        [(''exp_alias'', exp_alias), (''study_accession'', Some study_accession),
         (''sample_accession'', sample_accession)])
     (register_experiment env exp_alias study_accession sample_accession instrument library_d
        center_name attributes real)"
  unfolding register_experiment_def
  by (intro begins_with_emit emits_intros emits_any_submit_today)

lemma cli_register_calls_experiment:
  assumes "0 \<le> sample_stat" and "\<not> sample_only args"
    and "run_instrument args \<noteq> None" and "experiment_attr args \<noteq> None"
    and "run_lib_source args \<noteq> None" and "run_lib_selection args \<noteq> None"
  shows "begins_with
           (Called ''register_experiment''
              [(''exp_alias'', run_name args),
               (''study_accession'', Some (arg_study_accession args)),
               (''sample_accession'', acc)])
           (cli_register env args sample_stat acc)"
proof -
  obtain instrument ea src sel where given:
    "run_instrument args = Some instrument" "experiment_attr args = Some ea"
    "run_lib_source args = Some src" "run_lib_selection args = Some sel"
    using assms by auto
  have "cli_register env args sample_stat acc =
          andthen (register_experiment env (run_name args) (arg_study_accession args) acc
                     (replace (CHR ''_'') '' '' instrument)
                     \<lparr>lib_source = replace (CHR ''_'') '' '' src,
                      lib_selection = replace (CHR ''_'') '' '' sel,
                      lib_strategy = convert_library_strategy (run_lib_strategy args),
                      lib_protocol = run_lib_protocol args\<rparr>
                     (run_center_name args) (dict_of ea) (my_data_is_ready args))
            (\<lambda>(exp_stat, exp_accession).
               if exp_stat \<ge> 0 then
                 andthen (register_run env (run_name args) (run_file_path args) exp_accession
                            (run_center_name args) (run_file_type args) (my_data_is_ready args)
                            (\<not> no_ftp args))
                   (\<lambda>(run_stat, run_accession).
                      ret (if run_stat \<ge> 0 \<and> truthy run_accession then 1 else 0,
                           exp_accession, run_accession, Some run_stat))
               else ret (0, exp_accession, None, None))"
    unfolding cli_register_def using assms(1,2) given
    by (simp add: replace_underscores_def attr_dict_def)
  then show ?thesis
    by (simp only:) (intro begins_with_andthen register_experiment_begins emits_intros
        emits_any_register_run)
qed

section \<open>Properties of the response classifier\<close>

text \<open>
  C5.  A response whose HTTP status is not 200 is classified as FATAL (code -1) with no
  accession, whatever the body and the expected tag; nothing is raised, and the one thing
  written is the message to the diagnostic stream, which carries the whole body between
  two lines of stars.  In particular this holds for status 404.
\<close>

theorem handle_response_not_200:
  "status_code \<noteq> 200 \<Longrightarrow>
     handle_response bs status_code content accession t
       = (Inr (- 1, None), t @ [Stderr (not_200_message status_code content)])
     \<and> not_200_message status_code content
       = stars @ [CHR 0x0A] @ ''ENA responded with HTTP '' @ str_int status_code @ ''.'' @ [CHR 0x0A]
         @ ''I don't know how to handle this. For your information, the response is below:''
         @ [CHR 0x0A] @ stars @ [CHR 0x0A] @ content @ [CHR 0x0A] @ stars
     \<and> handle_response bs 404 content accession t
       = (Inr (- 1, None), t @ [Stderr (not_200_message 404 content)])"
  by (simp add: handle_response_def not_200_message_def)

theorem handle_response_not_200_witness:
  "(404 :: int) \<noteq> 200 \<and>
   handle_response (\<lambda>_. []) 404 ''<html>Not Found</html>'' (Some ''SAMPLE'') []
     = (Inr (- 1, None), [Stderr (not_200_message 404 ''<html>Not Found</html>'')])"
  using handle_response_not_200 [of 404 "\<lambda>_. []" "''<html>Not Found</html>''" "Some ''SAMPLE''" "[]"]
  by simp





text \<open>
  C8.  A 200 response whose document has no ERROR element is classified as OK (code 0);
  nothing is raised and nothing is written.  The accession is the \<open>accession\<close> attribute
  of the first element whose name is the expected tag (\<open>None\<close> when that element has no
  such attribute); it is \<open>None\<close> when no tag is expected or no element has that name, and
  the outcome is OK all the same.
\<close>

theorem handle_response_no_errors:
  "findAll (bs content) ''ERROR'' = [] \<Longrightarrow>
     (accession = None \<or> accession = Some [] \<longrightarrow>
        handle_response bs 200 content accession t = (Inr (0, None), t))
     \<and> (\<forall>tag. accession = Some tag \<and> tag \<noteq> [] \<and> findAll (bs content) tag = [] \<longrightarrow>
          handle_response bs 200 content accession t = (Inr (0, None), t))
     \<and> (\<forall>tag e es. accession = Some tag \<and> tag \<noteq> [] \<and> findAll (bs content) tag = e # es \<longrightarrow>
          handle_response bs 200 content accession t = (Inr (0, get_attr e ''accession''), t))"
  by (auto simp: handle_response_def truthy_def find_first_def)

text \<open>
  A receipt of a successful sample submission: the expected tag SAMPLE gives the
  accession of the first SAMPLE element, the tag RUN (no such element) and no tag give
  \<open>None\<close>.
\<close>

theorem handle_response_no_errors_witness:
  "findAll receipt_ok ''ERROR'' = []
   \<and> handle_response (\<lambda>_. receipt_ok) 200 ''<RECEIPT/>'' (Some ''SAMPLE'') [] = (Inr (0, Some ''ERS123''), [])
   \<and> handle_response (\<lambda>_. receipt_ok) 200 ''<RECEIPT/>'' (Some ''RUN'') [] = (Inr (0, None), [])
   \<and> handle_response (\<lambda>_. receipt_ok) 200 ''<RECEIPT/>'' None [] = (Inr (0, None), [])"
proof -
  have e: "findAll receipt_ok ''ERROR'' = []"
    by (simp add: receipt_ok_def findAll_def)
  have r: "findAll receipt_ok ''RUN'' = []"
    by (simp add: receipt_ok_def findAll_def)
  have s: "findAll receipt_ok ''SAMPLE'' =
             [Tag ''SAMPLE'' [(''accession'', ''ERS123''), (''alias'', ''s1'')]
                [Tag ''EXT_ID'' [(''accession'', ''SAMEA1''), (''type'', ''biosample'')] []]]"
    by (simp add: receipt_ok_def findAll_def)
  show ?thesis
    using e r s
      handle_response_no_errors [where bs = "\<lambda>_. receipt_ok" and content = "''<RECEIPT/>''"
        and accession = "Some ''SAMPLE''" and t = "[]"]
      handle_response_no_errors [where bs = "\<lambda>_. receipt_ok" and content = "''<RECEIPT/>''"
        and accession = "Some ''RUN''" and t = "[]"]
      handle_response_no_errors [where bs = "\<lambda>_. receipt_ok" and content = "''<RECEIPT/>''"
        and accession = None and t = "[]"]
    by simp
qed








text \<open>
  C4, as the code has it.  Take a 200 response and the first ERROR element, in document
  order, whose text contains one of the three phrases of the classifier.  When that
  text contains "already exists in the submission account with accession:", the outcome
  is DUPLICATE (code 1) and the accession is the last token of that text with every
  double quote and every full stop removed (\<open>replace\<close> removes all of them, not only those
  around the token).  The text has a last token, so nothing is raised.
\<close>

theorem handle_response_duplicate:
  assumes "map elem_text (findAll (bs content) ''ERROR'') = pre @ e_text # post"
    and "\<forall>x \<in> set pre. \<not> py_in already_exists x \<and> \<not> py_in already_submitted x \<and> \<not> py_in not_uploaded x"
    and "py_in already_exists e_text"
  shows "str_split e_text \<noteq> []
     \<and> handle_response bs 200 content accession t =
         (Inr (1, Some (replace (CHR ''.'') [] (replace (CHR 0x22) [] (last (str_split e_text))))),
          t @ [Stderr (''[SKIP] Accession ''
                       @ replace (CHR ''.'') [] (replace (CHR 0x22) [] (last (str_split e_text)))
                       @ '' already exists. Moving on...'' @ [CHR 0x0A])])"
proof -
  have ne: "findAll (bs content) ''ERROR'' \<noteq> []"
    using assms(1) by auto
  have "scan_errors (map elem_text (findAll (bs content) ''ERROR'')) (- 1, None) t
          = scan_errors (e_text # post) (- 1, None) t"
    unfolding assms(1) using assms(2) by (rule scan_errors_skip)
  then have "scan_errors (map elem_text (findAll (bs content) ''ERROR'')) (- 1, None) t =
     (Inr (1, Some (replace (CHR ''.'') [] (replace (CHR 0x22) [] (last (str_split e_text))))),
      t @ [Stderr (''[SKIP] Accession ''
                   @ replace (CHR ''.'') [] (replace (CHR 0x22) [] (last (str_split e_text)))
                   @ '' already exists. Moving on...'' @ [CHR 0x0A])])"
    by (simp only: scan_errors_exists [OF assms(3)])
  then show ?thesis
    using ne assms(3) by (simp add: handle_response_def andthen_Inr already_exists_tokens)
qed

text \<open>The example of the specification: the text ends in \<open>accession: "ABC123".\<close>\<close>

theorem handle_response_duplicate_witness:
  "map elem_text (findAll receipt_duplicate ''ERROR'') = [] @ duplicate_text # []
   \<and> py_in already_exists duplicate_text
   \<and> handle_response (\<lambda>_. receipt_duplicate) 200 ''<RECEIPT/>'' (Some ''SAMPLE'') [] =
       (Inr (1, Some ''ABC123''), [Stderr (''[SKIP] Accession ABC123 already exists. Moving on...'' @ [CHR 0x0A])])"
proof -
  have h1: "map elem_text (findAll receipt_duplicate ''ERROR'') = [] @ duplicate_text # []"
    by (simp add: receipt_duplicate_def findAll_def)
  have h2: "\<forall>x \<in> set []. \<not> py_in already_exists x \<and> \<not> py_in already_submitted x \<and> \<not> py_in not_uploaded x"
    by simp
  have h3: "py_in already_exists duplicate_text"
    by (simp add: already_exists_def duplicate_text_def)
  have v: "replace (CHR ''.'') [] (replace (CHR 0x22) [] (last (str_split duplicate_text))) = ''ABC123''"
    by (simp add: duplicate_text_def str_split_def isspace_def replace_def)
  show ?thesis
    using h1 h3
      handle_response_duplicate [where bs = "\<lambda>_. receipt_duplicate" and content = "''<RECEIPT/>''"
        and accession = "Some ''SAMPLE''" and t = "[]", OF h1 h2 h3]
    by (simp add: v)
qed

text \<open>
  The claim as it is written fails twice.  An ERROR element about a missing upload that
  precedes the duplicate one ends the loop with code -3 and no accession; and a last
  token \<open>"ERS.123".\<close> gives the accession \<open>ERS123\<close>, while stripping the surrounding
  quotes and the trailing full stop would give \<open>ERS.123\<close>.
\<close>

theorem handle_response_duplicate_counterexample:
  "findAll receipt_upload_then_duplicate ''ERROR''
     = [Tag ''ERROR'' [] [CData upload_text], Tag ''ERROR'' [] [CData duplicate_text]]
   \<and> py_in already_exists (elem_text (Tag ''ERROR'' [] [CData duplicate_text]))
   \<and> handle_response (\<lambda>_. receipt_upload_then_duplicate) 200 ''<RECEIPT/>'' None [] = (Inr (- 3, None), [])
   \<and> findAll receipt_dotted ''ERROR'' = [Tag ''ERROR'' [] [CData dotted_text]]
   \<and> py_in already_exists (elem_text (Tag ''ERROR'' [] [CData dotted_text]))
   \<and> last (str_split dotted_text) = [CHR 0x22] @ ''ERS.123'' @ [CHR 0x22] @ ''.''
   \<and> fst (handle_response (\<lambda>_. receipt_dotted) 200 ''<RECEIPT/>'' None []) = Inr (1, Some ''ERS123'')"
proof -
  have a: "py_in already_exists duplicate_text"
    by (simp add: already_exists_def duplicate_text_def)
  have b: "\<not> py_in already_exists upload_text" "\<not> py_in already_submitted upload_text"
      "py_in not_uploaded upload_text"
    by (simp_all add: already_exists_def already_submitted_def not_uploaded_def upload_text_def)
  have c: "py_in already_exists dotted_text"
    by (simp add: already_exists_def dotted_text_def)
  have d: "last (str_split dotted_text) = [CHR 0x22] @ ''ERS.123'' @ [CHR 0x22] @ ''.''"
    by (simp add: dotted_text_def str_split_def isspace_def)
  show ?thesis
    using a b c d
    by (simp add: receipt_upload_then_duplicate_def receipt_dotted_def findAll_def
        handle_response_def scan_errors_exists scan_errors_not_uploaded andthen_Inr replace_def
        del: scan_errors.simps)
qed

text \<open>
  C7, as the code has it.  In a 200 response, an ERROR element whose text contains "does
  not exist in the upload area" gives MISSING_UPLOAD (code -3) with no accession when no
  duplicate phrase occurs in an earlier ERROR element nor in that element itself: the
  two duplicate phrases are tested first on every element.
\<close>

theorem handle_response_missing_upload:
  assumes "map elem_text (findAll (bs content) ''ERROR'') = pre @ e_text # post"
    and "\<forall>x \<in> set pre. \<not> py_in already_exists x \<and> \<not> py_in already_submitted x"
    and "\<not> py_in already_exists e_text" and "\<not> py_in already_submitted e_text"
    and "py_in not_uploaded e_text"
  shows "handle_response bs 200 content accession t = (Inr (- 3, None), t)"
proof -
  have ne: "findAll (bs content) ''ERROR'' \<noteq> []"
    using assms(1) by auto
  have "scan_errors (map elem_text (findAll (bs content) ''ERROR'')) (- 1, None) t
          = (Inr (- 3, None), t)"
    unfolding assms(1) using scan_errors_no_duplicate [OF assms(2-5)] by simp
  then show ?thesis
    using ne by (simp add: handle_response_def andthen_Inr)
qed


text \<open>A receipt with the one error that the file is not in the upload area.\<close>

theorem handle_response_missing_upload_witness:
  "map elem_text (findAll receipt_upload ''ERROR'') = [] @ upload_text # []
   \<and> \<not> py_in already_exists upload_text \<and> \<not> py_in already_submitted upload_text
   \<and> py_in not_uploaded upload_text
   \<and> handle_response (\<lambda>_. receipt_upload) 200 ''<RECEIPT/>'' (Some ''RUN'') [] = (Inr (- 3, None), [])"
proof -
  have h1: "map elem_text (findAll receipt_upload ''ERROR'') = [] @ upload_text # []"
    by (simp add: receipt_upload_def findAll_def)
  have h2: "\<forall>x \<in> set []. \<not> py_in already_exists x \<and> \<not> py_in already_submitted x"
    by simp
  have b: "\<not> py_in already_exists upload_text" "\<not> py_in already_submitted upload_text"
      "py_in not_uploaded upload_text"
    by (simp_all add: already_exists_def already_submitted_def not_uploaded_def upload_text_def)
  show ?thesis
    using h1 b
      handle_response_missing_upload [where bs = "\<lambda>_. receipt_upload" and content = "''<RECEIPT/>''"
        and accession = "Some ''RUN''" and t = "[]", OF h1 h2 b]
    by simp
qed

text \<open>
  The claim as it is written fails where the text of the element itself also contains a
  duplicate phrase: there is no earlier error, and the outcome is DUPLICATE.
\<close>

theorem handle_response_missing_upload_counterexample:
  "findAll receipt_both ''ERROR'' = [Tag ''ERROR'' [] [CData both_text]]
   \<and> py_in not_uploaded (elem_text (Tag ''ERROR'' [] [CData both_text]))
   \<and> fst (handle_response (\<lambda>_. receipt_both) 200 ''<RECEIPT/>'' None []) = Inr (1, Some ''ERR1'')"
proof -
  have a: "py_in already_exists both_text"
    by (simp add: already_exists_def both_text_def)
  have b: "py_in not_uploaded both_text"
    by (simp add: not_uploaded_def both_text_def)
  have d: "last (str_split both_text) = [CHR 0x22] @ ''ERR1'' @ [CHR 0x22] @ ''.''"
    by (simp add: both_text_def str_split_def isspace_def)
  show ?thesis
    using a b d
    by (simp add: receipt_both_def findAll_def handle_response_def scan_errors_exists andthen_Inr
        replace_def del: scan_errors.simps)
qed

text \<open>
  C10.  For every status, body, parser and expected tag, \<open>handle_response\<close> returns a pair
  and raises nothing; the code is one of -3, -1, 0 and 1; with code -1 or -3 the
  accession is \<open>None\<close>, so an accession is only ever returned with code 0 or 1.
\<close>

theorem handle_response_codes:
  "\<exists>code acc t'. handle_response bs status_code content accession t = (Inr (code, acc), t')
     \<and> code \<in> {- 3, - 1, 0, 1}
     \<and> (code = - 1 \<or> code = - 3 \<longrightarrow> acc = None)
     \<and> (acc \<noteq> None \<longrightarrow> code = 0 \<or> code = 1)"
proof (cases "status_code \<noteq> 200")
  case True
  then show ?thesis by (simp add: handle_response_def)
next
  case ok: False
  show ?thesis
  proof (cases "findAll (bs content) ''ERROR'' = []")
    case True
    then show ?thesis using ok by (simp add: handle_response_def)
  next
    case False
    obtain code acc evs where
      scan: "scan_errors (map elem_text (findAll (bs content) ''ERROR'')) (- 1, None) t
               = (Inr (code, acc), t @ evs)"
      and shape: "(code, acc) = (- 1, None) \<or> (code = 1 \<and> acc \<noteq> None) \<or> (code = - 3 \<and> acc = None)"
      using scan_errors_total [of "map elem_text (findAll (bs content) ''ERROR'')" "(- 1, None)" t]
      by auto
    have "handle_response bs status_code content accession t =
            (if \<not> truthy acc \<and> code = - 1
             then (Inr (- 1, acc), t @ evs @ [Stderr (errors_200_message content)])
             else (Inr (code, acc), t @ evs))"
      using ok False scan by (simp add: handle_response_def andthen_Inr Let_def)
    then show ?thesis using shape by (auto simp: truthy_def)
  qed
qed

text \<open>
  A status 404 gives code -1, and the theorem gives that the accession is \<open>None\<close>; the
  duplicate receipt gives an accession, and the theorem gives that the code is 0 or 1.
\<close>

theorem handle_response_codes_witness:
  "(\<exists>t'. handle_response (\<lambda>_. []) 404 ''Not Found'' (Some ''SAMPLE'') [] = (Inr (- 1, None), t'))
   \<and> (\<exists>code t'. handle_response (\<lambda>_. receipt_duplicate) 200 ''<RECEIPT/>'' (Some ''SAMPLE'') []
                      = (Inr (code, Some ''ABC123''), t') \<and> (code = 0 \<or> code = 1))"
proof -
  obtain code acc t' where
    r: "handle_response (\<lambda>_. []) 404 ''Not Found'' (Some ''SAMPLE'') [] = (Inr (code, acc), t')"
    and n: "code = - 1 \<or> code = - 3 \<longrightarrow> acc = None"
    using handle_response_codes [where bs = "\<lambda>_. []" and status_code = 404
        and content = "''Not Found''" and accession = "Some ''SAMPLE''" and t = "[]"]
    by blast
  have "code = - 1"
    using r by (simp add: handle_response_def)
  then have first: "\<exists>t'. handle_response (\<lambda>_. []) 404 ''Not Found'' (Some ''SAMPLE'') []
                     = (Inr (- 1, None), t')"
    using r n by simp
  obtain code2 acc2 t2 where
    r2: "handle_response (\<lambda>_. receipt_duplicate) 200 ''<RECEIPT/>'' (Some ''SAMPLE'') []
           = (Inr (code2, acc2), t2)"
    and n2: "acc2 \<noteq> None \<longrightarrow> code2 = 0 \<or> code2 = 1"
    using handle_response_codes [where bs = "\<lambda>_. receipt_duplicate" and status_code = 200
        and content = "''<RECEIPT/>''" and accession = "Some ''SAMPLE''" and t = "[]"]
    by blast
  have a: "py_in already_exists duplicate_text"
    by (simp add: already_exists_def duplicate_text_def)
  have v: "replace (CHR ''.'') [] (replace (CHR 0x22) [] (last (str_split duplicate_text))) = ''ABC123''"
    by (simp add: duplicate_text_def str_split_def isspace_def replace_def)
  have "acc2 = Some ''ABC123''"
    using r2 a v
    by (simp add: receipt_duplicate_def findAll_def handle_response_def scan_errors_exists
        andthen_Inr del: scan_errors.simps)
  then show ?thesis
    using first r2 n2 by auto
qed

section \<open>Properties of the vocabulary normalizer\<close>

text \<open>
  C3.  The claim fails on the code: the instrument "Illumina Genome Analyzer II" contains
  the key "Genome Analyzer II", to which the table assigns the model "Illumina Genome
  Analyzer II", and \<open>_convert_platform\<close> returns the model "Illumina Genome Analyzer",
  because the key "Genome Analyzer" stands earlier in the table and occurs in every name
  in which the longer key occurs.  No instrument name at all yields the model "Illumina
  Genome Analyzer II".  The same happens to "Ion Torrent S5 XL" behind "Ion Torrent S5".
\<close>

theorem convert_platform_shadowed:
  "convert_platform ''Illumina Genome Analyzer II''
     = (Some ''ILLUMINA'', Some ''Illumina Genome Analyzer'')
   \<and> py_in (lower ''Genome Analyzer II'')
         (lower (replace (CHR ''_'') '' '' ''Illumina Genome Analyzer II''))
   \<and> map_of (the (map_of valid_enums ''ILLUMINA'')) ''Genome Analyzer II''
       = Some ''Illumina Genome Analyzer II''
   \<and> convert_platform ''Ion_Torrent_S5_XL'' = (Some ''ION_TORRENT'', Some ''Ion Torrent S5'')
   \<and> snd (convert_platform s) \<noteq> Some ''Illumina Genome Analyzer II''"
proof -
  define n where "n = lower (replace (CHR ''_'') '' '' s)"
  have k: "py_in ''genome analyzer ii'' n \<Longrightarrow> py_in ''genome analyzer'' n"
    using py_in_prefix [of "''genome analyzer''" "'' ii''" n] by simp
  have "snd (scan_makes valid_enums n) \<noteq> Some ''Illumina Genome Analyzer II''"
    using k by (simp add: valid_enums_def lower_def lower_char_def)
  then have never: "snd (convert_platform s) \<noteq> Some ''Illumina Genome Analyzer II''"
    by (simp add: convert_platform_def n_def)
  have "convert_platform ''Illumina Genome Analyzer II''
          = (Some ''ILLUMINA'', Some ''Illumina Genome Analyzer'')"
    by (simp add: convert_platform_def valid_enums_def lower_def lower_char_def replace_def)
  moreover have "py_in (lower ''Genome Analyzer II'')
         (lower (replace (CHR ''_'') '' '' ''Illumina Genome Analyzer II''))"
    by (simp add: lower_def lower_char_def replace_def)
  moreover have "map_of (the (map_of valid_enums ''ILLUMINA'')) ''Genome Analyzer II''
       = Some ''Illumina Genome Analyzer II''"
    by (simp add: valid_enums_def)
  moreover have "convert_platform ''Ion_Torrent_S5_XL'' = (Some ''ION_TORRENT'', Some ''Ion Torrent S5'')"
    by (simp add: convert_platform_def valid_enums_def lower_def lower_char_def replace_def)
  ultimately show ?thesis using never by blast
qed

section \<open>Properties of the submission client\<close>

text \<open>
  C6.  A sample registration in modify mode, for every world and every argument.  The
  envelope that \<open>_add_today\<close> builds carries the one action block of the modify branch,
  which has exactly one ACTION element, exactly one MODIFY and no HOLD; so has the whole
  envelope when the centre name, which is pasted in unescaped, contains no \<open><\<close>.  The run
  sends exactly one request, the submission with that envelope, and after it only writes
  to the diagnostic stream: no release request follows, whatever the outcome.
\<close>

theorem register_sample_modify:
  "\<exists>E evs.
      add_today (env_today env) (Some center_name) True = Inr E
    \<and> occurrences ''<ACTION>'' (add_today_action (env_today env) True) = 1
    \<and> occurrences ''<MODIFY/>'' (add_today_action (env_today env) True) = 1
    \<and> occurrences ''HOLD'' (add_today_action (env_today env) True) = 0
    \<and> (CHR ''<'' \<notin> set center_name \<longrightarrow>
         occurrences ''<ACTION>'' E = 1 \<and> occurrences ''<MODIFY/>'' E = 1 \<and> occurrences ''<HOLD'' E = 0)
    \<and> snd (register_sample env sample_alias taxon_id center_name attributes real True t)
        = t @ [Called ''register_sample''
                 [(''sample_alias'', Some sample_alias), (''center_name'', Some center_name)],
               Http_post (submit_url real)
                 [(''SAMPLE'', sample_xml sample_alias taxon_id center_name attributes),
                  (''SUBMISSION'', E)]] @ evs
    \<and> (\<forall>e \<in> set evs. is_stderr e)"
proof -
  define E where \<open>E = ''\<newline>    <SUBMISSION center_name="'' @ center_name
          @ ''">\<newline>    <ACTIONS>\<newline>        <ACTION>\<newline>            <MODIFY/>\<newline>        </ACTION>\<newline>    </ACTIONS>\<newline>    </SUBMISSION>\<newline>    ''\<close>
  define called where "called = Called ''register_sample''
                 [(''sample_alias'', Some sample_alias), (''center_name'', Some center_name)]"
  define post where "post = Http_post (submit_url real)
                 [(''SAMPLE'', sample_xml sample_alias taxon_id center_name attributes),
                  (''SUBMISSION'', E)]"
  have env: "add_today (env_today env) (Some center_name) True = Inr E"
    unfolding E_def by (rule add_today_modify)
  have action: "occurrences ''<ACTION>'' (add_today_action (env_today env) True) = 1"
      "occurrences ''<MODIFY/>'' (add_today_action (env_today env) True) = 1"
      "occurrences ''HOLD'' (add_today_action (env_today env) True) = 0"
    by (simp_all add: add_today_action_def)
  have counts: "occurrences ''<ACTION>'' E = 1 \<and> occurrences ''<MODIFY/>'' E = 1
                  \<and> occurrences ''<HOLD'' E = 0"
    if clean: "CHR ''<'' \<notin> set center_name"
    using occurrences_skip [OF clean, of "''ACTION>''"] occurrences_skip [OF clean, of "''MODIFY/>''"]
      occurrences_skip [OF clean, of "''HOLD''"]
    by (simp add: E_def)
  have "\<exists>evs. snd (register_sample env sample_alias taxon_id center_name attributes real True t)
                = t @ [called, post] @ evs \<and> (\<forall>e \<in> set evs. is_stderr e)"
  proof (cases "env_post env (t @ [called]) (submit_url real)
             [(''SAMPLE'', sample_xml sample_alias taxon_id center_name attributes), (''SUBMISSION'', E)]")
    case (Inl e)
    then show ?thesis
      using register_sample_modify_run [OF env, of sample_alias taxon_id attributes real t]
      by (simp add: called_def post_def)
  next
    case (Inr r)
    have "emits is_stderr (handle_response (env_bs env) (r_status_code r) (r_text r) (Some ''SAMPLE''))"
      by (rule emits_handle_response) simp
    then obtain evs where
      "snd (handle_response (env_bs env) (r_status_code r) (r_text r) (Some ''SAMPLE'') (t @ [called, post]))
         = (t @ [called, post]) @ evs" and "\<forall>e \<in> set evs. is_stderr e"
      using emitsD by blast
    then show ?thesis
      using Inr register_sample_modify_run [OF env, of sample_alias taxon_id attributes real t]
      by (auto simp: called_def post_def)
  qed
  then show ?thesis
    using env action counts unfolding called_def post_def by blast
qed

text \<open>
  The sample is accepted (outcome OK with accession ERS123), and the trace of the run
  ends with the one submission request.
\<close>

theorem register_sample_modify_witness:
  "CHR ''<'' \<notin> set ''CENTRE''
   \<and> fst (register_sample (world [] reply_ok) ''s1'' ''2697049'' ''CENTRE'' [] False True [])
       = Inr (0, Some ''ERS123'')
   \<and> (\<exists>E. occurrences ''<MODIFY/>'' E = 1 \<and> occurrences ''<HOLD'' E = 0
          \<and> snd (register_sample (world [] reply_ok) ''s1'' ''2697049'' ''CENTRE'' [] False True [])
              = [Called ''register_sample'' [(''sample_alias'', Some ''s1''), (''center_name'', Some ''CENTRE'')],
                 Http_post (submit_url False)
                   [(''SAMPLE'', sample_xml ''s1'' ''2697049'' ''CENTRE'' []), (''SUBMISSION'', E)]])"
proof -
  have clean: "CHR ''<'' \<notin> set ''CENTRE''" by simp
  obtain E evs where
    env: "add_today (env_today (world [] reply_ok)) (Some ''CENTRE'') True = Inr E"
    and counts: "occurrences ''<MODIFY/>'' E = 1" "occurrences ''<HOLD'' E = 0"
    using clean register_sample_modify [where env = "world [] reply_ok" and center_name = "''CENTRE''"
        and sample_alias = "''s1''" and taxon_id = "''2697049''" and attributes = "[]"
        and real = False and t = "[]"]
    by blast
  have ok: "handle_response parse_receipt 200 receipt_ok_text (Some ''SAMPLE'') t = (Inr (0, Some ''ERS123''), t)" for t
    by (simp add: handle_response_def parse_receipt_def receipt_ok_def findAll_def find_first_def truthy_def)
  have reply: "env_post (world [] reply_ok) t url
                 [(''SAMPLE'', p), (''SUBMISSION'', E)] = Inr \<lparr>r_status_code = 200, r_text = receipt_ok_text\<rparr>"
    for t url p
    by (simp add: world_def reply_ok_def)
  have bs: "env_bs (world [] reply_ok) = parse_receipt"
    by (simp add: world_def)
  have run: "register_sample (world [] reply_ok) ''s1'' ''2697049'' ''CENTRE'' [] False True []
     = (Inr (0, Some ''ERS123''),
        [Called ''register_sample'' [(''sample_alias'', Some ''s1''), (''center_name'', Some ''CENTRE'')],
         Http_post (submit_url False)
           [(''SAMPLE'', sample_xml ''s1'' ''2697049'' ''CENTRE'' []), (''SUBMISSION'', E)]])"
    by (simp only: register_sample_modify_run [OF env] reply bs ok sum.case response.simps append_Nil)
  show ?thesis
    using clean counts run by auto
qed

text \<open>
  C2, as the code has it.  When \<open>release_asap\<close> is true and the first response classifies
  as OK, a release request for the returned accession follows the submission; the
  accession of the release response is discarded, and the pair returned is the outcome
  of the release response with the accession of the first response (line 209 assigns
  \<open>status\<close> again).  The success message is written when that outcome is OK.
\<close>

theorem submit_today_release:
  assumes "add_today (env_today env) (Some c) modify = Inr submission"
    and "files = dict_set ''SUBMISSION'' submission (dict_set submit_type payload [])"
    and "env_post env t (submit_url real) files = Inr r1"
    and "handle_response (env_bs env) (r_status_code r1) (r_text r1) (Some submit_type)
               (t @ [Http_post (submit_url real) files]) = (Inr (0, accession), t2)"
    and "release_xml accession (Some c) = Inr rx"
    and "env_post env t2 (submit_url real) [(''SUBMISSION'', rx)] = Inr r2"
    and "handle_response (env_bs env) (r_status_code r2) (r_text r2) None
                (t2 @ [Http_post (submit_url real) [(''SUBMISSION'', rx)]]) = (Inr (status2, accession2), t3)"
  shows \<open>submit_today env submit_type payload (Some c) True real modify t =
           (Inr (status2, accession),
            t3 @ (if status2 = 0
                  then [Stderr (''[INFO] '' @ submit_type @ '' released successfully: ''
                                @ str_opt accession @ [CHR 0x0A])]
                  else []))
     \<and> (\<exists>evs. t3 = t2 @ [Http_post (submit_url real) [(''SUBMISSION'', rx)]] @ evs
               \<and> (\<forall>e \<in> set evs. is_stderr e))
     \<and> rx = ''\<newline>    <SUBMISSION center_name="'' @ c
          @ ''">\<newline>    <ACTIONS>\<newline>        <ACTION>\<newline>            <RELEASE target="''
          @ str_opt accession
          @ ''" />\<newline>        </ACTION>\<newline>    </ACTIONS>\<newline>    </SUBMISSION>\<newline>    ''\<close>
proof -
  have "emits is_stderr (handle_response (env_bs env) (r_status_code r2) (r_text r2) None)"
    by (rule emits_handle_response) simp
  then obtain evs where
    "snd (handle_response (env_bs env) (r_status_code r2) (r_text r2) None
            (t2 @ [Http_post (submit_url real) [(''SUBMISSION'', rx)]]))
       = (t2 @ [Http_post (submit_url real) [(''SUBMISSION'', rx)]]) @ evs"
    and "\<forall>e \<in> set evs. is_stderr e"
    using emitsD by blast
  then have "\<exists>evs. t3 = t2 @ [Http_post (submit_url real) [(''SUBMISSION'', rx)]] @ evs
               \<and> (\<forall>e \<in> set evs. is_stderr e)"
    using assms(7) by auto
  moreover note submit_today_release_run [OF assms]
  moreover have \<open>rx = ''\<newline>    <SUBMISSION center_name="'' @ c
          @ ''">\<newline>    <ACTIONS>\<newline>        <ACTION>\<newline>            <RELEASE target="''
          @ str_opt accession
          @ ''" />\<newline>        </ACTION>\<newline>    </ACTIONS>\<newline>    </SUBMISSION>\<newline>    ''\<close>
    using assms(5) by (simp add: release_xml_Some)
  ultimately show ?thesis by blast
qed

text \<open>Both requests are accepted: two requests and the success message.\<close>

theorem submit_today_release_witness:
  "\<exists>S RX. add_today ''2026-11-03'' (Some ''CENTRE'') False = Inr S
     \<and> release_xml (Some ''ERS123'') (Some ''CENTRE'') = Inr RX
     \<and> submit_today (world [] reply_ok) ''SAMPLE'' ''<SAMPLE_SET/>'' (Some ''CENTRE'') True False False []
         = (Inr (0, Some ''ERS123''),
            [Http_post (submit_url False) [(''SAMPLE'', ''<SAMPLE_SET/>''), (''SUBMISSION'', S)],
             Http_post (submit_url False) [(''SUBMISSION'', RX)],
             Stderr (''[INFO] SAMPLE released successfully: ERS123'' @ [CHR 0x0A])])"
proof -
  obtain S where h1: "add_today (env_today (world [] reply_ok)) (Some ''CENTRE'') False = Inr S"
    by (simp add: add_today_def cat_def)
  obtain RX where h5: "release_xml (Some ''ERS123'') (Some ''CENTRE'') = Inr RX"
    by (simp add: release_xml_Some)
  define files where "files = dict_set ''SUBMISSION'' S (dict_set ''SAMPLE'' ''<SAMPLE_SET/>'' [])"
  have files: "files = [(''SAMPLE'', ''<SAMPLE_SET/>''), (''SUBMISSION'', S)]"
    by (simp add: files_def)
  have h3: "env_post (world [] reply_ok) [] (submit_url False) files
              = Inr \<lparr>r_status_code = 200, r_text = receipt_ok_text\<rparr>"
    by (simp add: world_def reply_ok_def files)
  have h4: "handle_response (env_bs (world [] reply_ok))
              (r_status_code \<lparr>r_status_code = 200, r_text = receipt_ok_text\<rparr>)
              (r_text \<lparr>r_status_code = 200, r_text = receipt_ok_text\<rparr>) (Some ''SAMPLE'')
              ([] @ [Http_post (submit_url False) files])
            = (Inr (0, Some ''ERS123''), [Http_post (submit_url False) files])"
    by (simp add: world_def classify_receipt_ok)
  have h6: "env_post (world [] reply_ok) [Http_post (submit_url False) files] (submit_url False)
              [(''SUBMISSION'', RX)] = Inr \<lparr>r_status_code = 200, r_text = receipt_release_text\<rparr>"
    by (simp add: world_def reply_ok_def)
  have h7: "handle_response (env_bs (world [] reply_ok))
              (r_status_code \<lparr>r_status_code = 200, r_text = receipt_release_text\<rparr>)
              (r_text \<lparr>r_status_code = 200, r_text = receipt_release_text\<rparr>) None
              ([Http_post (submit_url False) files] @ [Http_post (submit_url False) [(''SUBMISSION'', RX)]])
            = (Inr (0, None),
               [Http_post (submit_url False) files, Http_post (submit_url False) [(''SUBMISSION'', RX)]])"
    by (simp add: world_def classify_receipt_release)
  have today: "env_today (world [] reply_ok) = ''2026-11-03''"
    by (simp add: world_def)
  have "submit_today (world [] reply_ok) ''SAMPLE'' ''<SAMPLE_SET/>'' (Some ''CENTRE'') True False False []
         = (Inr (0, Some ''ERS123''),
            [Http_post (submit_url False) [(''SAMPLE'', ''<SAMPLE_SET/>''), (''SUBMISSION'', S)],
             Http_post (submit_url False) [(''SUBMISSION'', RX)],
             Stderr (''[INFO] SAMPLE released successfully: ERS123'' @ [CHR 0x0A])])"
    using submit_today_release [OF h1 files_def h3 h4 h5 h6 h7]
    by (simp add: files str_opt_def)
  then show ?thesis
    using h1 h5 unfolding today by blast
qed

text \<open>
  The claim as it is written fails where the release request is refused: the submission
  was classified as OK with accession ERS123, and \<open>submit_today\<close> returns the outcome -1
  of the release response.
\<close>

theorem submit_today_release_counterexample:
  "env_post (world [] reply_release_fails) [] (submit_url False)
       [(''SAMPLE'', ''<SAMPLE_SET/>''),
        (''SUBMISSION'', projr (add_today ''2026-11-03'' (Some ''CENTRE'') False))]
     = Inr \<lparr>r_status_code = 200, r_text = receipt_ok_text\<rparr>
   \<and> fst (handle_response (env_bs (world [] reply_release_fails)) 200 receipt_ok_text (Some ''SAMPLE'') [])
       = Inr (0, Some ''ERS123'')
   \<and> fst (submit_today (world [] reply_release_fails) ''SAMPLE'' ''<SAMPLE_SET/>'' (Some ''CENTRE'')
            True False False [])
       = Inr (- 1, Some ''ERS123'')"
proof -
  obtain S where h1: "add_today (env_today (world [] reply_release_fails)) (Some ''CENTRE'') False = Inr S"
    by (simp add: add_today_def cat_def)
  obtain RX where h5: "release_xml (Some ''ERS123'') (Some ''CENTRE'') = Inr RX"
    by (simp add: release_xml_Some)
  define files where "files = dict_set ''SUBMISSION'' S (dict_set ''SAMPLE'' ''<SAMPLE_SET/>'' [])"
  have files: "files = [(''SAMPLE'', ''<SAMPLE_SET/>''), (''SUBMISSION'', S)]"
    by (simp add: files_def)
  have h3: "env_post (world [] reply_release_fails) [] (submit_url False) files
              = Inr \<lparr>r_status_code = 200, r_text = receipt_ok_text\<rparr>"
    by (simp add: world_def reply_release_fails_def files)
  have h4: "handle_response (env_bs (world [] reply_release_fails))
              (r_status_code \<lparr>r_status_code = 200, r_text = receipt_ok_text\<rparr>)
              (r_text \<lparr>r_status_code = 200, r_text = receipt_ok_text\<rparr>) (Some ''SAMPLE'')
              ([] @ [Http_post (submit_url False) files])
            = (Inr (0, Some ''ERS123''), [Http_post (submit_url False) files])"
    by (simp add: world_def classify_receipt_ok)
  have h6: "env_post (world [] reply_release_fails) [Http_post (submit_url False) files] (submit_url False)
              [(''SUBMISSION'', RX)] = Inr \<lparr>r_status_code = 500, r_text = ''Internal Server Error''\<rparr>"
    by (simp add: world_def reply_release_fails_def)
  have h7: "handle_response (env_bs (world [] reply_release_fails))
              (r_status_code \<lparr>r_status_code = 500, r_text = ''Internal Server Error''\<rparr>)
              (r_text \<lparr>r_status_code = 500, r_text = ''Internal Server Error''\<rparr>) None
              ([Http_post (submit_url False) files] @ [Http_post (submit_url False) [(''SUBMISSION'', RX)]])
            = (Inr (- 1, None),
               ([Http_post (submit_url False) files] @ [Http_post (submit_url False) [(''SUBMISSION'', RX)]])
               @ [Stderr (not_200_message 500 ''Internal Server Error'')])"
    by (simp add: classify_500)
  have "fst (submit_today (world [] reply_release_fails) ''SAMPLE'' ''<SAMPLE_SET/>'' (Some ''CENTRE'')
            True False False []) = Inr (- 1, Some ''ERS123'')"
    using submit_today_release_run [OF h1 files_def h3 h4 h5 h6 h7] by simp
  moreover have "env_post (world [] reply_release_fails) [] (submit_url False)
       [(''SAMPLE'', ''<SAMPLE_SET/>''), (''SUBMISSION'', S')]
     = Inr \<lparr>r_status_code = 200, r_text = receipt_ok_text\<rparr>" for S'
    by (simp add: world_def reply_release_fails_def)
  moreover have "fst (handle_response (env_bs (world [] reply_release_fails)) 200 receipt_ok_text (Some ''SAMPLE'') [])
       = Inr (0, Some ''ERS123'')"
    by (simp add: world_def classify_receipt_ok)
  ultimately show ?thesis by simp
qed

section \<open>Properties of the orchestrator\<close>

text \<open>
  C9.  Take a run in which the search returns a list that is not empty.  Nothing that
  the run does is an entry into \<open>register_sample\<close> or a request that carries a SAMPLE
  document, and every entry into \<open>register_experiment\<close> has as its sample accession the
  value of \<open>secondary_sample_accession\<close> in the first record.  When that record has the
  field and the command line asks for a full run with the options that the call reads,
  \<open>register_experiment\<close> is entered with that value.
\<close>

theorem cli_reuses_found_sample:
  assumes "env_search env t (search_url (arg_study_accession args) (sample_name args))
             = Inr (first # rest)"
  shows "\<exists>evs. snd (cli env args t) = t @ evs
     \<and> (\<forall>e \<in> set evs.
           (\<forall>a. e \<noteq> Called ''register_sample'' a)
           \<and> (\<forall>url files. e = Http_post url files \<longrightarrow> map_of files ''SAMPLE'' = None)
           \<and> (\<forall>a. e = Called ''register_experiment'' a \<longrightarrow>
                 map_of a ''sample_accession'' = map_of first ''secondary_sample_accession''))
     \<and> (\<forall>acc. map_of first ''secondary_sample_accession'' = Some acc \<and> \<not> sample_only args
               \<and> run_instrument args \<noteq> None \<and> experiment_attr args \<noteq> None
               \<and> run_lib_source args \<noteq> None \<and> run_lib_selection args \<noteq> None \<longrightarrow>
           Called ''register_experiment''
             [(''exp_alias'', run_name args),
              (''study_accession'', Some (arg_study_accession args)),
              (''sample_accession'', acc)] \<in> set evs)"
proof (cases "map_of first ''secondary_sample_accession''")
  case None
  then have "cli_sample env args t
               = (Inl KeyError, t @ [Http_get (search_url (arg_study_accession args) (sample_name args))])"
    using cli_sample_found [OF assms] by simp
  then have "snd (cli env args t)
               = t @ [Http_get (search_url (arg_study_accession args) (sample_name args))]"
    by (simp add: cli_def andthen_Inl)
  then show ?thesis using None by simp
next
  case (Some acc)
  define t1 where "t1 = t @ [Http_get (search_url (arg_study_accession args) (sample_name args)),
                Stderr (''[SKIP] Accession '' @ str_opt acc @ '' already exists. Moving on...''
                        @ [CHR 0x0A])]"
  define k where "k = (\<lambda>(success, exp_accession, run_accession, run_stat).
          andthen (emit (Stdout (summary_line args success acc exp_accession run_accession)))
            (\<lambda>_. lift (cli_exit args success run_stat)))"
  have k: "emits P (k x)" if "\<And>s. P (Stdout s)" for P x
    unfolding k_def by (intro emits_intros emits_emit that)
  have sample: "cli_sample env args t = (Inr (1, acc), t1)"
    using cli_sample_found [OF assms] Some by (simp add: t1_def)
  have run: "cli env args t = andthen (cli_register env args 1 acc) k t1"
    unfolding k_def by (rule cli_after_sample [OF sample])
  have "emits (keeps_sample acc) (andthen (cli_register env args 1 acc) k)"
    by (intro emits_andthen keeps_sample_cli_register k) simp
  then obtain evs where evs: "snd (cli env args t) = t1 @ evs"
    and keeps: "\<forall>e \<in> set evs. keeps_sample acc e"
    unfolding run emits_def by blast
  have trace: "snd (cli env args t)
        = t @ ([Http_get (search_url (arg_study_accession args) (sample_name args)),
                Stderr (''[SKIP] Accession '' @ str_opt acc @ '' already exists. Moving on...''
                        @ [CHR 0x0A])] @ evs)"
    using evs by (simp add: t1_def)
  have each: "(\<forall>a. e \<noteq> Called ''register_sample'' a)
           \<and> (\<forall>url files. e = Http_post url files \<longrightarrow> map_of files ''SAMPLE'' = None)
           \<and> (\<forall>a. e = Called ''register_experiment'' a \<longrightarrow>
                 map_of a ''sample_accession'' = map_of first ''secondary_sample_accession'')"
    if "e \<in> set ([Http_get (search_url (arg_study_accession args) (sample_name args)),
                Stderr (''[SKIP] Accession '' @ str_opt acc @ '' already exists. Moving on...''
                        @ [CHR 0x0A])] @ evs)" for e
  proof -
    have "keeps_sample acc e" using that keeps by auto
    then show ?thesis using Some by (cases e) auto
  qed
  have called: "Called ''register_experiment''
             [(''exp_alias'', run_name args),
              (''study_accession'', Some (arg_study_accession args)),
              (''sample_accession'', acc)] \<in> set evs"
    if "\<not> sample_only args" "run_instrument args \<noteq> None" "experiment_attr args \<noteq> None"
      "run_lib_source args \<noteq> None" "run_lib_selection args \<noteq> None"
  proof -
    have "begins_with
           (Called ''register_experiment''
              [(''exp_alias'', run_name args),
               (''study_accession'', Some (arg_study_accession args)),
               (''sample_accession'', acc)])
           (andthen (cli_register env args 1 acc) k)"
      by (intro begins_with_andthen cli_register_calls_experiment that k) simp_all
    then obtain evs' where "snd (cli env args t) = t1 @ Called ''register_experiment''
              [(''exp_alias'', run_name args),
               (''study_accession'', Some (arg_study_accession args)),
               (''sample_accession'', acc)] # evs'"
      unfolding run begins_with_def by blast
    then show ?thesis using evs by simp
  qed
  define evs0 where "evs0 = [Http_get (search_url (arg_study_accession args) (sample_name args)),
                Stderr (''[SKIP] Accession '' @ str_opt acc @ '' already exists. Moving on...''
                        @ [CHR 0x0A])] @ evs"
  have c1: "snd (cli env args t) = t @ evs0"
    using trace by (simp add: evs0_def)
  have c2: "\<forall>e \<in> set evs0.
           (\<forall>a. e \<noteq> Called ''register_sample'' a)
           \<and> (\<forall>url files. e = Http_post url files \<longrightarrow> map_of files ''SAMPLE'' = None)
           \<and> (\<forall>a. e = Called ''register_experiment'' a \<longrightarrow>
                 map_of a ''sample_accession'' = map_of first ''secondary_sample_accession'')"
    unfolding evs0_def using each by blast
  have c3: "\<forall>acc'. map_of first ''secondary_sample_accession'' = Some acc' \<and> \<not> sample_only args
               \<and> run_instrument args \<noteq> None \<and> experiment_attr args \<noteq> None
               \<and> run_lib_source args \<noteq> None \<and> run_lib_selection args \<noteq> None \<longrightarrow>
           Called ''register_experiment''
             [(''exp_alias'', run_name args),
              (''study_accession'', Some (arg_study_accession args)),
              (''sample_accession'', acc')] \<in> set evs0"
  proof (intro allI impI)
    fix acc'
    assume h: "map_of first ''secondary_sample_accession'' = Some acc' \<and> \<not> sample_only args
               \<and> run_instrument args \<noteq> None \<and> experiment_attr args \<noteq> None
               \<and> run_lib_source args \<noteq> None \<and> run_lib_selection args \<noteq> None"
    then have "acc' = acc" using Some by simp
    moreover have "Called ''register_experiment''
             [(''exp_alias'', run_name args),
              (''study_accession'', Some (arg_study_accession args)),
              (''sample_accession'', acc)] \<in> set evs"
      using h by (intro called) simp_all
    ultimately show "Called ''register_experiment''
             [(''exp_alias'', run_name args),
              (''study_accession'', Some (arg_study_accession args)),
              (''sample_accession'', acc')] \<in> set evs0"
      by (simp add: evs0_def)
  qed
  show ?thesis
    using c1 c2 c3 by blast
qed

text \<open>
  The search finds the sample with the secondary accession ERS123, and the full run
  enters \<open>register_experiment\<close> with it.
\<close>

theorem cli_reuses_found_sample_witness:
  "env_search (world found_sample reply_ok) [] (search_url ''PRJEB1'' ''s1'') = Inr found_sample
   \<and> map_of (hd found_sample) ''secondary_sample_accession'' = Some (Some ''ERS123'')
   \<and> Called ''register_experiment''
         [(''exp_alias'', Some ''r1''), (''study_accession'', Some ''PRJEB1''),
          (''sample_accession'', Some ''ERS123'')]
       \<in> set (snd (cli (world found_sample reply_ok) args_full []))
   \<and> (\<forall>a. Called ''register_sample'' a \<notin> set (snd (cli (world found_sample reply_ok) args_full [])))"
proof -
  define W where "W = world found_sample reply_ok"
  define first where "first = hd found_sample"
  have fs: "found_sample = first # []"
    by (simp add: found_sample_def first_def)
  have search: "env_search W t url = Inr found_sample" for t url
    by (simp add: W_def world_def)
  have found: "env_search W [] (search_url (arg_study_accession args_full) (sample_name args_full))
               = Inr (first # [])"
    unfolding search by (simp add: fs)
  have acc: "map_of first ''secondary_sample_accession'' = Some (Some ''ERS123'')"
    by (simp add: found_sample_def first_def)
  have given: "\<not> sample_only args_full" "run_instrument args_full \<noteq> None"
    "experiment_attr args_full \<noteq> None" "run_lib_source args_full \<noteq> None"
    "run_lib_selection args_full \<noteq> None"
    by (simp_all add: args_full_def)
  have names: "run_name args_full = Some ''r1''" "arg_study_accession args_full = ''PRJEB1''"
    by (simp_all add: args_full_def)
  obtain evs where H:
    "snd (cli W args_full []) = [] @ evs
     \<and> (\<forall>e \<in> set evs.
           (\<forall>a. e \<noteq> Called ''register_sample'' a)
           \<and> (\<forall>url files. e = Http_post url files \<longrightarrow> map_of files ''SAMPLE'' = None)
           \<and> (\<forall>a. e = Called ''register_experiment'' a \<longrightarrow>
                 map_of a ''sample_accession'' = map_of first ''secondary_sample_accession''))
     \<and> (\<forall>acc. map_of first ''secondary_sample_accession'' = Some acc \<and> \<not> sample_only args_full
               \<and> run_instrument args_full \<noteq> None \<and> experiment_attr args_full \<noteq> None
               \<and> run_lib_source args_full \<noteq> None \<and> run_lib_selection args_full \<noteq> None \<longrightarrow>
           Called ''register_experiment''
             [(''exp_alias'', run_name args_full),
              (''study_accession'', Some (arg_study_accession args_full)),
              (''sample_accession'', acc)] \<in> set evs)"
    using cli_reuses_found_sample [OF found] by (rule exE)
  have tr: "snd (cli W args_full []) = evs"
    using H [THEN conjunct1] by simp
  have prem: "map_of first ''secondary_sample_accession'' = Some (Some ''ERS123'') \<and> \<not> sample_only args_full
               \<and> run_instrument args_full \<noteq> None \<and> experiment_attr args_full \<noteq> None
               \<and> run_lib_source args_full \<noteq> None \<and> run_lib_selection args_full \<noteq> None"
    using acc given by simp
  have called: "Called ''register_experiment''
             [(''exp_alias'', Some ''r1''), (''study_accession'', Some ''PRJEB1''),
              (''sample_accession'', Some ''ERS123'')] \<in> set evs"
    using H [THEN conjunct2, THEN conjunct2, rule_format, OF prem] unfolding names .
  have none: "Called ''register_sample'' a \<notin> set evs" for a
  proof
    assume m: "Called ''register_sample'' a \<in> set evs"
    have "\<forall>a'. Called ''register_sample'' a \<noteq> Called ''register_sample'' a'"
      by (rule conjunct1 [OF bspec [OF H [THEN conjunct2, THEN conjunct1] m]])
    then show False by simp
  qed
  have s1: "env_search W [] (search_url ''PRJEB1'' ''s1'') = Inr found_sample"
    by (rule search)
  have s2: "map_of (hd found_sample) ''secondary_sample_accession'' = Some (Some ''ERS123'')"
    using acc by (simp only: first_def)
  show ?thesis
    unfolding W_def [symmetric] tr
    using s1 s2 called none by (intro conjI allI)
qed

text \<open>
  C1.  The claim fails on the code.  In a full run (no \<open>--sample-only\<close>) in which the
  sample step ends with a negative outcome, neither branch of lines 356 to 369 is taken,
  \<open>run_stat\<close> is never assigned, and line 385 reads it: after the summary line the run
  ends with UnboundLocalError and not with one of the exit statuses of the specification.
\<close>

theorem cli_unbound_run_stat:
  assumes "cli_sample env args t = (Inr (sample_stat, sample_accession), t1)"
    and "sample_stat < 0" and "\<not> sample_only args"
  shows "cli env args t =
           (Inl UnboundLocalError, t1 @ [Stdout (summary_line args 0 sample_accession None None)])"
  using assms(2,3)
  by (simp add: cli_after_sample [OF assms(1)] cli_register_def cli_exit_def)

text \<open>
  The search finds nothing and the submission of the sample is refused with status 500:
  \<open>register_sample\<close> returns -1, and the full run ends with UnboundLocalError.
\<close>

theorem cli_unbound_run_stat_witness:
  "(\<exists>t1. cli_sample (world [] reply_500) args_full [] = (Inr (- 1, None), t1))
   \<and> \<not> sample_only args_full
   \<and> fst (cli (world [] reply_500) args_full []) = Inl UnboundLocalError"
proof -
  define W where "W = world [] reply_500"
  obtain S where s: "add_today (env_today W) (Some ''CENTRE'') False = Inr S"
    by (simp add: add_today_def cat_def)
  have post: "requests_post W url files t
                = (Inr \<lparr>r_status_code = 500, r_text = ''Internal Server Error''\<rparr>, t @ [Http_post url files])"
    for url files t
    by (simp add: requests_post_def W_def world_def reply_500_def)
  have submit: "fst (submit_today W ''SAMPLE'' payload (Some ''CENTRE'') True False False t)
          = Inr (- 1, None)" for payload t
    by (simp add: submit_today_def s andthen_apply post classify_500 del: dict_set.simps)
  have search: "get_sample_list W p n [] = (Inr [], [Http_get (search_url p n)])" for p n
    by (simp add: get_sample_list_def W_def world_def)
  have fields: "sample_attr args_full = Some [(''collection date'', ''2020'')]"
    "sample_center_name args_full = ''CENTRE''" "arg_modify args_full = False"
    "my_data_is_ready args_full = False" "\<not> sample_only args_full"
    by (simp_all add: args_full_def)
  have "cli_sample W args_full [] =
          register_sample W (sample_name args_full) (sample_taxon args_full) ''CENTRE''
            (dict_of [(''collection date'', ''2020'')]) False False
            [Http_get (search_url (arg_study_accession args_full) (sample_name args_full))]"
    unfolding cli_sample_def
    by (simp add: andthen_apply search fields attr_dict_def del: dict_set.simps)
  then have f: "fst (cli_sample W args_full []) = Inr (- 1, None)"
    by (simp add: register_sample_def submit)
  define t1 where "t1 = snd (cli_sample W args_full [])"
  have cs: "cli_sample W args_full [] = (Inr (- 1, None), t1)"
    using f by (simp add: t1_def prod_eq_iff)
  have neg: "(- 1 :: int) < 0" by simp
  have "cli W args_full [] =
          (Inl UnboundLocalError, t1 @ [Stdout (summary_line args_full 0 None None None)])"
    by (rule cli_unbound_run_stat [OF cs neg fields(5)])
  then have c: "fst (cli W args_full []) = Inl UnboundLocalError"
    by simp
  have e: "\<exists>t1. cli_sample W args_full [] = (Inr (- 1, None), t1)"
    using cs by (rule exI)
  show ?thesis
    unfolding W_def [symmetric] using e fields(5) c by (intro conjI)
qed

end
